theory Spec2Isabelle
  imports Main
begin

section \<open>Strings\<close>

text \<open>
  A JavaScript string is a sequence of UTF-16 code units. The keyword tables of
  \<open>runAnalysis\<close> hold Turkish letters beyond Latin-1 (\<open>giri\<close> followed by U+015F,
  \<open>ad\<close> U+0131 \<open>m\<close>), so a string is a list of code units, each a natural number.
  \<open>asc\<close> embeds an ASCII literal.
\<close>

type_synonym jstr = "nat list"

definition asc :: "string \<Rightarrow> jstr" where
  "asc s = map of_char s"

text \<open>\<open>s.includes(pat)\<close>: \<open>pat\<close> occurs in \<open>s\<close> as a contiguous run of code units.\<close>

fun starts_with :: "'a list \<Rightarrow> 'a list \<Rightarrow> bool" where
  "starts_with s [] = True"
| "starts_with [] (p # ps) = False"
| "starts_with (c # cs) (p # ps) = (c = p \<and> starts_with cs ps)"

fun str_includes :: "'a list \<Rightarrow> 'a list \<Rightarrow> bool" where
  "str_includes [] pat = (pat = [])"
| "str_includes (c # cs) pat = (starts_with (c # cs) pat \<or> str_includes cs pat)"

text \<open>\<open>s.includes('...')\<close> with an ASCII literal, the form every rule below uses.\<close>

definition inc :: "jstr \<Rightarrow> string \<Rightarrow> bool" where
  "inc s lit = str_includes s (asc lit)"

text \<open>\<open>s.substring(0, n)\<close>.\<close>

definition substring0 :: "jstr \<Rightarrow> nat \<Rightarrow> jstr" where
  "substring0 s n = take n s"

text \<open>
  ASCII lower-casing. \<open>String.prototype.toLowerCase\<close> itself is a parameter of the
  model (field \<open>toLowerCase\<close> of the environment below); on concrete inputs it is
  \<open>ascii_lower\<close>, which agrees with JavaScript on every ASCII string.
\<close>

definition ascii_lower :: "jstr \<Rightarrow> jstr" where
  "ascii_lower s = map (\<lambda>c. if 65 \<le> c \<and> c \<le> 90 then c + 32 else c) s"

section \<open>The result types (lines 1-34)\<close>

datatype category = Critical | Warning | Suggestion | Positive

record Finding =
  finding_id :: jstr
  category :: category
  title :: jstr
  description :: jstr
  evidence :: jstr
  recommendation :: jstr

record TimelineEvent =
  timestamp :: jstr
  action :: jstr
  url :: jstr
  success :: bool

datatype status = Completed | Failed

record Metrics =
  add_to_cart_success :: bool
  time_to_add_to_cart_seconds :: "int option"
  checkout_reached :: bool
  checkout_form_filled :: bool
  drop_off_step :: "jstr option"

record AnalysisResult =
  run_id :: jstr
  store_url :: jstr
  status :: status
  score :: int
  metrics :: Metrics
  findings :: "Finding list"
  timeline :: "TimelineEvent list"
  session_url :: "jstr option"
  error :: "jstr option"

text \<open>A finding all of whose fields are literals of the source.\<close>

definition finding :: "string \<Rightarrow> category \<Rightarrow> string \<Rightarrow> string \<Rightarrow> string \<Rightarrow> string \<Rightarrow> Finding" where
  "finding i c t d e r =
     \<lparr>finding_id = asc i, category = c, title = asc t, description = asc d,
      evidence = asc e, recommendation = asc r\<rparr>"

text \<open>A finding whose evidence is computed (a template literal of the source).\<close>

definition finding_ev :: "string \<Rightarrow> category \<Rightarrow> string \<Rightarrow> string \<Rightarrow> jstr \<Rightarrow> string \<Rightarrow> Finding" where
  "finding_ev i c t d e r =
     \<lparr>finding_id = asc i, category = c, title = asc t, description = asc d,
      evidence = e, recommendation = asc r\<rparr>"

section \<open>Thrown values\<close>

text \<open>
  Anything may be thrown in JavaScript. The handlers only ask
  \<open>e instanceof Error ? e.message : 'Unknown error'\<close>, so a thrown value is either an
  \<open>Error\<close> with its message or something else.
\<close>

datatype thrown = ErrorObj jstr | NonError

fun error_message :: "thrown \<Rightarrow> jstr" where
  "error_message (ErrorObj m) = m"
| "error_message NonError = asc ''Unknown error''"

section \<open>The finding rules\<close>

text \<open>
  Each block of \<open>if (...) findings.push({...})\<close> statements of the source is the list of
  findings it pushes, in order, as a function of the lower-cased serialised observation.
\<close>

text \<open>Homepage rules, lines 112-162.\<close>

definition homepage_findings :: "jstr \<Rightarrow> Finding list" where
  "homepage_findings homepageStr =
     (if \<not> inc homepageStr ''search'' \<or> inc homepageStr ''no search'' \<or> inc homepageStr ''not visible''
      then (if \<not> inc homepageStr ''search bar'' \<and> \<not> inc homepageStr ''search icon''
            then [finding ''homepage-no-search'' Warning
                    ''Search Not Prominently Visible''
                    ''The search functionality is not clearly visible on the homepage''
                    ''Search bar/icon not easily found during homepage analysis''
                    ''Add a prominent search bar in the header to help users find products quickly'']
            else [])
      else [])
     @ (if inc homepageStr ''confusing'' \<or> inc homepageStr ''cluttered'' \<or> inc homepageStr ''unclear''
           \<or> inc homepageStr ''difficult''
        then [finding ''homepage-navigation-unclear'' Warning
                ''Navigation Could Be Clearer''
                ''The navigation menu or page layout may be confusing to users''
                ''Navigation described as unclear or cluttered during analysis''
                ''Simplify the navigation menu and ensure clear visual hierarchy'']
        else [])
     @ (if inc homepageStr ''hard to find'' \<or> inc homepageStr ''not easy''
           \<or> inc homepageStr ''difficult to locate''
        then [finding ''homepage-products-hidden'' Suggestion
                ''Products Not Immediately Visible''
                ''Users may have difficulty finding products from the homepage''
                ''Products or shop section not prominently displayed''
                ''Feature popular products on the homepage or make the shop section more prominent'']
        else [])
     @ (if inc homepageStr ''popup'' \<or> inc homepageStr ''overlay'' \<or> inc homepageStr ''modal''
        then (if inc homepageStr ''annoying'' \<or> inc homepageStr ''intrusive'' \<or> inc homepageStr ''blocking''
              then [finding ''homepage-intrusive-popups'' Warning
                      ''Intrusive Popups Detected''
                      ''Popups or overlays may be disrupting the user experience''
                      ''Intrusive popup/overlay detected on homepage''
                      ''Delay popups or make them less intrusive to improve first impression'']
              else [])
        else [])"

text \<open>Product page rules, lines 269-348.\<close>

definition product_no_reviews :: Finding where
  "product_no_reviews =
     finding ''product-no-reviews'' Suggestion
       ''No Reviews/Ratings Visible''
       ''Product reviews or ratings are not displayed''
       ''No customer reviews or ratings found on product page''
       ''Display customer reviews and ratings to build trust and help purchase decisions''"

definition product_findings :: "jstr \<Rightarrow> Finding list" where
  "product_findings productStr =
     (if inc productStr ''price'' \<and> (inc productStr ''not clear'' \<or> inc productStr ''hard to find''
           \<or> inc productStr ''not visible'')
      then [finding ''product-price-unclear'' Critical
              ''Product Price Not Clear''
              ''The product price is not prominently displayed''
              ''Price visibility issue detected on product page''
              ''Display the price in a larger font near the product title and add-to-cart button'']
      else [])
     @ (if inc productStr ''image'' \<and> (inc productStr ''blurry'' \<or> inc productStr ''low quality''
           \<or> inc productStr ''small'' \<or> inc productStr ''not zoomable'')
        then [finding ''product-images-poor'' Warning
                ''Product Images Could Be Better''
                ''Product images may not be high quality or zoomable''
                ''Image quality or zoom functionality issues detected''
                ''Use high-resolution product images with zoom functionality'']
        else [])
     @ (if inc productStr ''add to cart'' \<and> (inc productStr ''not prominent''
           \<or> inc productStr ''hard to find'' \<or> inc productStr ''small'')
        then [finding ''product-atc-not-prominent'' Warning
                ''Add to Cart Button Not Prominent''
                ''The add to cart button may not stand out enough''
                ''Add to cart button prominence issue detected''
                ''Make the add to cart button larger with a contrasting color'']
        else [])
     @ (if \<not> inc productStr ''review'' \<and> \<not> inc productStr ''rating'' \<and> \<not> inc productStr ''star''
        then [product_no_reviews]
        else if inc productStr ''no review'' \<or> inc productStr ''no rating''
        then [product_no_reviews]
        else [])
     @ (if \<not> inc productStr ''stock'' \<and> \<not> inc productStr ''availability'' \<and> \<not> inc productStr ''stok''
        then [finding ''product-no-stock-info'' Suggestion
                ''Stock Availability Not Shown''
                ''Product stock/availability information is not visible''
                ''No stock availability indicator found on product page''
                ''Show stock availability to create urgency and prevent cart abandonment'']
        else [])
     @ (if \<not> inc productStr ''shipping'' \<and> \<not> inc productStr ''delivery'' \<and> \<not> inc productStr ''kargo''
           \<and> \<not> inc productStr ''teslimat''
        then [finding ''product-no-shipping-info'' Suggestion
                ''No Shipping Info on Product Page''
                ''Shipping/delivery information is not visible on the product page''
                ''No shipping information found before add to cart''
                ''Display estimated delivery time and shipping cost on the product page'']
        else [])"

text \<open>The variant-selection lexicon, lines 410-420, and the second probe, line 452.\<close>

definition needsVariantSelection :: "jstr \<Rightarrow> bool" where
  "needsVariantSelection errorCheckStr =
     (inc errorCheckStr ''beden'' \<or> inc errorCheckStr ''size''
      \<or> str_includes errorCheckStr (asc ''se'' @ [231])
      \<or> inc errorCheckStr ''select'' \<or> inc errorCheckStr ''variant''
      \<or> inc errorCheckStr ''renk'' \<or> inc errorCheckStr ''color''
      \<or> inc errorCheckStr ''required'' \<or> inc errorCheckStr ''zorunlu''
      \<or> str_includes errorCheckStr (asc ''l'' @ [252] @ asc ''tfen''))"

definition stillSizeError :: "jstr \<Rightarrow> bool" where
  "stillSizeError secondErrorStr =
     (inc secondErrorStr ''beden'' \<or> inc secondErrorStr ''size'' \<or> inc secondErrorStr ''error'')"

text \<open>
  The cart-success decision, lines 477-481. The first pattern of the source is the
  three-character literal \<open>'"0"'\<close>: a zero between two double quotes (code unit 34).
\<close>

definition hasItems :: "jstr \<Rightarrow> bool" where
  "hasItems cartCheckStr =
     (\<not> str_includes cartCheckStr ([34] @ asc ''0'' @ [34])
      \<and> \<not> inc cartCheckStr ''0 item''
      \<and> \<not> inc cartCheckStr ''empty''
      \<and> \<not> inc cartCheckStr ''no item''
      \<and> (inc cartCheckStr ''1'' \<or> inc cartCheckStr ''item'' \<or> inc cartCheckStr ''added''
         \<or> inc cartCheckStr ''eklendi'' \<or> inc cartCheckStr ''success''))"

text \<open>Cart experience rules, lines 513-559.\<close>

definition cart_findings :: "jstr \<Rightarrow> Finding list" where
  "cart_findings cartExpStr =
     (if \<not> inc cartExpStr ''feedback'' \<and> \<not> inc cartExpStr ''notification'' \<and> \<not> inc cartExpStr ''popup''
         \<and> \<not> inc cartExpStr ''animation'' \<and> \<not> inc cartExpStr ''confirmation''
      then [finding ''cart-no-feedback'' Warning
              ''No Clear Add-to-Cart Feedback''
              ''Users may not realize the item was added to cart''
              ''No clear visual feedback detected after adding to cart''
              ''Add a clear confirmation popup, animation, or notification when items are added to cart'']
      else [])
     @ (if \<not> inc cartExpStr ''free shipping''
           \<and> \<not> str_includes cartExpStr ([252] @ asc ''cretsiz kargo'')
           \<and> \<not> inc cartExpStr ''shipping threshold''
        then [finding ''cart-no-shipping-threshold'' Suggestion
                ''No Free Shipping Threshold Message''
                ''Missing opportunity to encourage larger orders with free shipping incentive''
                (''No '' @ [CHR 0x22] @ ''Add X more for free shipping'' @ [CHR 0x22] @ '' message detected'')
                ''Display how much more the customer needs to spend for free shipping'']
        else [])
     @ (if \<not> inc cartExpStr ''upsell'' \<and> \<not> inc cartExpStr ''cross-sell'' \<and> \<not> inc cartExpStr ''also like''
           \<and> \<not> inc cartExpStr ''recommend'' \<and> \<not> inc cartExpStr ''related''
        then [finding ''cart-no-upsell'' Suggestion
                ''No Upsell After Add to Cart''
                ''Missing opportunity to increase order value with product suggestions''
                ''No product recommendations shown after adding to cart''
                (''Show '' @ [CHR 0x22] @ ''Frequently bought together'' @ [CHR 0x22]
                   @ '' or related products after add to cart'')]
        else [])
     @ (if inc cartExpStr ''checkout'' \<and> (inc cartExpStr ''not clear'' \<or> inc cartExpStr ''hard to find''
           \<or> inc cartExpStr ''hidden'')
        then [finding ''cart-checkout-unclear'' Warning
                ''Checkout Button Not Prominent''
                ''Users may have difficulty finding how to proceed to checkout''
                ''Checkout button or path not prominently displayed''
                ''Make the checkout button more visible with contrasting colors'']
        else [])"

text \<open>The diagnosis of a failed add-to-cart, lines 586-622.\<close>

definition add_to_cart_failure_finding :: "jstr \<Rightarrow> jstr \<Rightarrow> Finding" where
  "add_to_cart_failure_finding cartCheckStr finalErrorStr =
     (if inc finalErrorStr ''beden'' \<or> inc finalErrorStr ''size'' \<or> inc finalErrorStr ''variant''
      then finding_ev ''add-to-cart-size-required'' Warning
             ''Size Selection UX Issue''
             ''Product requires size selection but the options may not be obvious or easy to select''
             (asc ''Error: '' @ substring0 finalErrorStr 200)
             ''Make size/variant options more prominent and clearly indicate when selection is required before adding to cart''
      else if inc finalErrorStr ''stock'' \<or> inc finalErrorStr ''stok''
              \<or> str_includes finalErrorStr (asc ''t'' @ [252] @ asc ''kendi'')
      then finding_ev ''add-to-cart-out-of-stock'' Warning
             ''Product Out of Stock''
             ''The selected product appears to be out of stock''
             (asc ''Error: '' @ substring0 finalErrorStr 200)
             ''Show stock availability clearly and suggest similar in-stock products''
      else if inc finalErrorStr ''login'' \<or> str_includes finalErrorStr (asc ''giri'' @ [351])
              \<or> str_includes finalErrorStr ([252] @ asc ''ye'')
      then finding_ev ''add-to-cart-login-required'' Critical
             ''Login Required to Add to Cart''
             ''Users must be logged in to add items to cart''
             (asc ''Error: '' @ substring0 finalErrorStr 200)
             ''Allow guest users to add items to cart without logging in''
      else finding_ev ''add-to-cart-failed'' Critical
             ''Add to Cart Failed''
             ''Clicked add to cart but the cart remained empty''
             (asc ''Cart check: '' @ cartCheckStr @ asc '', Error check: '' @ substring0 finalErrorStr 200)
             ''Verify the add to cart button is functional and provides clear feedback'')"

text \<open>
  The field-count probe of the checkout rules, line 892:
  \<open>analysisStr.match(/(\d+)\s*(form\s*)?fields?/i)\<close>, on the serialised observation
  before lower-casing. \<open>\d\<close> is an ASCII digit, \<open>\s\<close> the white space and line
  terminators of ECMAScript, and under the \<open>i\<close> flag (without \<open>u\<close>) a letter of the
  pattern matches only its two ASCII cases. A match can only take a whole run of digits
  (a shorter one is followed by a digit, which is neither white space nor \<open>f\<close>), so the
  leftmost match is found by trying each start position in turn; the result is group 1.
\<close>

definition is_digit :: "nat \<Rightarrow> bool" where
  "is_digit c = (48 \<le> c \<and> c \<le> 57)"

definition is_space :: "nat \<Rightarrow> bool" where
  "is_space c =
     (c \<in> set [9, 10, 11, 12, 13, 32, 160, 5760, 8232, 8233, 8239, 8287, 12288, 65279]
      \<or> (8192 \<le> c \<and> c \<le> 8202))"

fun ci_starts_with :: "jstr \<Rightarrow> jstr \<Rightarrow> bool" where
  "ci_starts_with s [] = True"
| "ci_starts_with [] (p # ps) = False"
| "ci_starts_with (c # cs) (p # ps) = ((c = p \<or> c + 32 = p) \<and> ci_starts_with cs ps)"

definition match_here :: "jstr \<Rightarrow> jstr option" where
  "match_here s =
     (let ds = takeWhile is_digit s;
          r = dropWhile is_space (dropWhile is_digit s)
      in if ds = [] then None
         else if ci_starts_with r (asc ''form'')
                 \<and> ci_starts_with (dropWhile is_space (drop 4 r)) (asc ''field'') then Some ds
         else if ci_starts_with r (asc ''field'') then Some ds
         else None)"

fun fieldMatch :: "jstr \<Rightarrow> jstr option" where
  "fieldMatch [] = None"
| "fieldMatch (c # cs) =
     (case match_here (c # cs) of Some ds \<Rightarrow> Some ds | None \<Rightarrow> fieldMatch cs)"

text \<open>\<open>parseInt\<close> on a run of ASCII digits.\<close>

definition parseInt :: "jstr \<Rightarrow> int" where
  "parseInt ds = foldl (\<lambda>n d. 10 * n + (int d - 48)) 0 ds"

text \<open>
  Checkout rules, lines 830-954. \<open>numberToString\<close> is the text JavaScript prints for a
  number inside a template literal.
\<close>

definition checkout_findings :: "(int \<Rightarrow> jstr) \<Rightarrow> jstr \<Rightarrow> jstr \<Rightarrow> Finding list" where
  "checkout_findings numberToString analysisStr analysisLower =
     (if \<not> inc analysisLower ''discount'' \<and> \<not> inc analysisLower ''coupon''
      then [finding ''no-discount-field'' Suggestion
              ''No Discount Code Field Visible''
              ''The checkout page does not prominently display a discount code field''
              ''Discount/coupon field not found during checkout analysis''
              ''Add a visible discount code field to encourage conversions and allow marketing campaigns'']
      else [])
     @ (if \<not> inc analysisLower ''upsell'' \<and> \<not> inc analysisLower ''cross-sell''
           \<and> \<not> inc analysisLower ''related'' \<and> \<not> inc analysisLower ''recommend''
        then [finding ''no-upsell'' Suggestion
                ''No Upsell/Cross-sell at Checkout''
                ''The checkout page does not show product recommendations''
                ''No upsell or cross-sell suggestions found at checkout''
                (''Add '' @ [CHR 0x22] @ ''Frequently bought together'' @ [CHR 0x22] @ '' or ''
                   @ [CHR 0x22] @ ''You might also like'' @ [CHR 0x22]
                   @ '' sections to increase average order value'')]
        else [])
     @ (if \<not> inc analysisLower ''trust'' \<and> \<not> inc analysisLower ''security''
           \<and> \<not> inc analysisLower ''ssl'' \<and> \<not> inc analysisLower ''secure''
        then [finding ''no-trust-badges'' Warning
                ''No Trust Badges Visible''
                ''Security and trust indicators are not prominently displayed''
                ''No trust badges or security indicators found on checkout page''
                ''Add SSL badges, payment provider logos, and security seals to increase buyer confidence'']
        else [])
     @ (if \<not> inc analysisLower ''free shipping''
           \<and> \<not> str_includes analysisLower ([252] @ asc ''cretsiz kargo'')
        then [finding ''no-free-shipping-threshold'' Suggestion
                ''No Free Shipping Incentive''
                (''No '' @ [CHR 0x22] @ ''Add X more for free shipping'' @ [CHR 0x22] @ '' message found'')
                ''Free shipping threshold messaging not detected''
                (''Display '' @ [CHR 0x22] @ ''Add X TL more for free shipping'' @ [CHR 0x22]
                   @ '' to encourage larger orders'')]
        else [])
     @ (if inc analysisLower ''login required''
           \<or> (inc analysisLower ''login'' \<and> \<not> inc analysisLower ''guest'')
           \<or> inc analysisLower ''account required''
           \<or> inc analysisLower ''sign in required''
        then [finding ''checkout-no-guest'' Warning
                ''Guest Checkout Not Available''
                ''Users are required to create an account or log in to checkout''
                ''Login/account required before checkout completion''
                ''Offer guest checkout option to reduce friction and cart abandonment'']
        else [])
     @ (case fieldMatch analysisStr of
          None \<Rightarrow> []
        | Some ds \<Rightarrow>
            (let fieldCount = parseInt ds
             in if fieldCount > 8
                then [\<lparr>finding_id = asc ''checkout-too-many-fields'', category = Suggestion,
                       title = asc ''Too Many Form Fields'',
                       description = asc ''Checkout form has '' @ numberToString fieldCount
                                     @ asc '' fields which may cause abandonment'',
                       evidence = numberToString fieldCount
                                  @ asc '' form fields detected during checkout analysis'',
                       recommendation =
                         asc ''Reduce form fields to essential information only (aim for 6-8 fields max)''\<rparr>]
                else []))
     @ (if \<not> inc analysisLower ''progress'' \<and> \<not> inc analysisLower ''step''
           \<and> \<not> inc analysisLower ''indicator''
           \<and> \<not> str_includes analysisLower (asc ''ad'' @ [305] @ asc ''m'')
        then [finding ''checkout-no-progress'' Suggestion
                ''No Progress Indicator''
                ''Checkout does not show progress through the checkout steps''
                ''No progress indicator or step tracker found''
                (''Add a progress bar or step indicator (e.g., '' @ [CHR 0x22] @ ''Step 2 of 3''
                   @ [CHR 0x22] @ '') to reduce anxiety'')]
        else [])
     @ (if \<not> inc analysisLower ''shipping cost'' \<and> \<not> inc analysisLower ''delivery cost''
           \<and> \<not> str_includes analysisLower (asc ''kargo '' @ [252] @ asc ''creti'')
           \<and> (inc analysisLower ''shipping'' \<or> inc analysisLower ''kargo'')
        then (if inc analysisLower ''not displayed'' \<or> inc analysisLower ''not visible''
                 \<or> inc analysisLower ''hidden'' \<or> inc analysisLower ''unclear''
              then [finding ''checkout-unclear-shipping'' Warning
                      ''Shipping Costs Not Clear''
                      ''Shipping costs are not clearly displayed before checkout completion''
                      ''Shipping cost visibility issue detected''
                      ''Display shipping costs clearly and early to prevent surprise costs at checkout'']
              else [])
        else [])
     @ (if inc analysisLower ''error'' \<and> \<not> inc analysisLower ''no error''
        then (if inc analysisLower ''error message'' \<or> inc analysisLower ''validation error''
              then [finding ''checkout-has-errors'' Critical
                      ''Form Validation Errors Present''
                      ''Error messages are visible on the checkout form''
                      ''Validation errors detected during checkout process''
                      ''Review form validation and ensure error messages are helpful and actionable'']
              else [])
        else [])"

section \<open>The environment\<close>

text \<open>
  Everything \<open>runAnalysis\<close> reads from outside is a field of the environment. No call
  site of the function is inside a loop, so each is executed at most once in a run and
  its outcome is indexed by its line in the source: \<open>stagehand_extract E 184\<close> is the
  outcome of the \<open>stagehand.extract\<close> call of line 184.

  \<^item> \<open>new_Stagehand\<close>: the dynamic import and the constructor call, lines 49-56
    (\<open>Some e\<close>: it throws \<open>e\<close>);
  \<^item> \<open>stagehand_init\<close>, \<open>page_goto\<close>, \<open>stagehand_act\<close>, \<open>stagehand_close\<close>:
    \<open>None\<close> when the awaited call resolves, \<open>Some e\<close> when it throws or rejects;
  \<^item> \<open>browserbaseSessionID\<close>: the session id, \<open>None\<close> for \<open>undefined\<close>;
  \<^item> \<open>context_pages\<close>: \<open>(stagehand as any).context.pages()[0]\<close>, \<open>Inl e\<close> when the
    expression throws, \<open>Inr False\<close> when it is \<open>undefined\<close>, \<open>Inr True\<close> for a page;
  \<^item> \<open>stagehand_extract\<close>: \<open>Inr s\<close> when the call resolves with a value whose
    \<open>JSON.stringify\<close> is the string \<open>s\<close>; \<open>Inl e\<close> when the call throws, and also when
    it resolves with a value that \<open>JSON.stringify\<close> rejects or maps to \<open>undefined\<close>
    (then the statement that follows throws a TypeError inside the same \<open>try\<close> block
    before anything else has happened);
  \<^item> \<open>page_url\<close>: what \<open>page.url()\<close> returns;
  \<^item> \<open>Date_now\<close>: the clock reading of \<open>Date.now()\<close> in milliseconds;
  \<^item> \<open>toISOString\<close>: \<open>new Date().toISOString()\<close>;
  \<^item> \<open>toLowerCase\<close> and \<open>numberToString\<close>: the two operations of the JavaScript
    runtime whose tables are not part of the program.
\<close>

record env =
  new_Stagehand :: "thrown option"
  stagehand_init :: "thrown option"
  browserbaseSessionID :: "jstr option"
  context_pages :: "thrown + bool"
  page_goto :: "thrown option"
  page_url :: "nat \<Rightarrow> jstr"
  stagehand_extract :: "nat \<Rightarrow> thrown + jstr"
  stagehand_act :: "nat \<Rightarrow> thrown option"
  stagehand_close :: "nat \<Rightarrow> thrown option"
  Date_now :: "nat \<Rightarrow> int"
  toISOString :: "nat \<Rightarrow> jstr"
  toLowerCase :: "jstr \<Rightarrow> jstr"
  numberToString :: "int \<Rightarrow> jstr"

section \<open>The local variables and the control flow\<close>

text \<open>
  The mutable locals of \<open>runAnalysis\<close> (lines 37-46 and 84). \<open>closeCalls\<close> is not a
  variable of the source: it counts the invocations of \<open>stagehand.close()\<close>.
\<close>

record locals =
  timeline_v :: "TimelineEvent list"
  findings_v :: "Finding list"
  addToCartSuccess :: bool
  checkoutReached :: bool
  dropOffStep :: "jstr option"
  timeToAddToCart :: "int option"
  sessionUrl :: "jstr option"
  addToCartTime :: "int option"
  currentUrl :: jstr
  closeCalls :: nat

text \<open>
  A statement takes the locals and returns them updated, with \<open>Some e\<close> when it threw
  \<open>e\<close>: what it had changed before throwing stays changed.
\<close>

type_synonym stmt = "locals \<Rightarrow> thrown option \<times> locals"

definition modify :: "(locals \<Rightarrow> locals) \<Rightarrow> stmt" where
  "modify f s = (None, f s)"

definition throw :: "thrown \<Rightarrow> stmt" where
  "throw e s = (Some e, s)"

text \<open>An awaited call whose value is not used.\<close>

definition await :: "thrown option \<Rightarrow> stmt" where
  "await r s = (r, s)"

text \<open>A sequence of statements: the first that throws ends it.\<close>

fun block :: "stmt list \<Rightarrow> stmt" where
  "block [] s = (None, s)"
| "block (c # cs) s =
     (case c s of (None, s1) \<Rightarrow> block cs s1 | (Some e, s1) \<Rightarrow> (Some e, s1))"

definition try_catch :: "stmt \<Rightarrow> (thrown \<Rightarrow> stmt) \<Rightarrow> stmt" where
  "try_catch body handler s =
     (case body s of (None, s1) \<Rightarrow> (None, s1) | (Some e, s1) \<Rightarrow> handler e s1)"

text \<open>\<open>if (cond) { ... }\<close> on a condition over the locals.\<close>

definition when_v :: "(locals \<Rightarrow> bool) \<Rightarrow> stmt \<Rightarrow> stmt" where
  "when_v cond body s = (if cond s then body s else (None, s))"

text \<open>\<open>if (cond) { ... }\<close> on a condition over constants of the enclosing block.\<close>

definition when_c :: "bool \<Rightarrow> stmt \<Rightarrow> stmt" where
  "when_c cond body = (if cond then body else block [])"

text \<open>
  \<open>const str = JSON.stringify(await stagehand.extract(...)).toLowerCase()\<close> at a line,
  followed by the statements that use \<open>str\<close>; and the same without lower-casing.
\<close>

definition extract_lower :: "env \<Rightarrow> nat \<Rightarrow> (jstr \<Rightarrow> stmt) \<Rightarrow> stmt" where
  "extract_lower E line rest s =
     (case stagehand_extract E line of
        Inl e \<Rightarrow> (Some e, s)
      | Inr v \<Rightarrow> rest (toLowerCase E v) s)"

definition extract_raw :: "env \<Rightarrow> nat \<Rightarrow> (jstr \<Rightarrow> stmt) \<Rightarrow> stmt" where
  "extract_raw E line rest s =
     (case stagehand_extract E line of
        Inl e \<Rightarrow> (Some e, s)
      | Inr v \<Rightarrow> rest v s)"

text \<open>\<open>await stagehand.act(...)\<close> at a line.\<close>

definition act :: "env \<Rightarrow> nat \<Rightarrow> stmt" where
  "act E line = await (stagehand_act E line)"

text \<open>\<open>currentUrl = page.url()\<close> at a line.\<close>

definition read_url :: "env \<Rightarrow> nat \<Rightarrow> stmt" where
  "read_url E line = modify (\<lambda>s. s\<lparr>currentUrl := page_url E line\<rparr>)"

text \<open>
  \<open>timeline.push({timestamp: new Date().toISOString(), action, url: currentUrl, success: true})\<close>
  with the \<open>timestamp\<close> expression at the given line, and the same with \<open>url: page.url()\<close>
  (the \<open>url\<close> expression is two lines below the \<open>timestamp\<close> one).
\<close>

definition push_event :: "env \<Rightarrow> nat \<Rightarrow> string \<Rightarrow> stmt" where
  "push_event E line label =
     modify (\<lambda>s. s\<lparr>timeline_v := timeline_v s @
        [\<lparr>timestamp = toISOString E line, action = asc label, url = currentUrl s, success = True\<rparr>]\<rparr>)"

definition push_event_url :: "env \<Rightarrow> nat \<Rightarrow> string \<Rightarrow> stmt" where
  "push_event_url E line label =
     modify (\<lambda>s. s\<lparr>timeline_v := timeline_v s @
        [\<lparr>timestamp = toISOString E line, action = asc label, url = page_url E (line + 2),
          success = True\<rparr>]\<rparr>)"

text \<open>\<open>findings.push(...)\<close>, once or for each finding of a rule block.\<close>

definition push_findings :: "Finding list \<Rightarrow> stmt" where
  "push_findings fs = modify (\<lambda>s. s\<lparr>findings_v := findings_v s @ fs\<rparr>)"

definition set_dropOffStep :: "string \<Rightarrow> stmt" where
  "set_dropOffStep step = modify (\<lambda>s. s\<lparr>dropOffStep := Some (asc step)\<rparr>)"

text \<open>
  The truth value of a \<open>string | null\<close> variable in a condition: \<open>null\<close> and the empty
  string are falsy.
\<close>

fun falsy :: "jstr option \<Rightarrow> bool" where
  "falsy None = True"
| "falsy (Some v) = (v = [])"

section \<open>The stages of \<open>runAnalysis\<close>\<close>

text \<open>Lines 59-92: session start and navigation to the store.\<close>

definition navigate :: "env \<Rightarrow> jstr \<Rightarrow> stmt" where
  "navigate E storeUrl =
     block [
       await (stagehand_init E),
       modify (\<lambda>s. case browserbaseSessionID E of
                       None \<Rightarrow> s
                     | Some sessionId \<Rightarrow>
                         if sessionId = [] then s
                         else s\<lparr>sessionUrl := Some (asc ''https://browserbase.com/sessions/'' @ sessionId)\<rparr>),
       (\<lambda>s. case context_pages E of
               Inl e \<Rightarrow> (Some e, s)
             | Inr page \<Rightarrow>
                 if \<not> page
                 then throw (ErrorObj (asc ''Could not get page from stagehand.context.pages()'')) s
                 else (None, s)),
       await (page_goto E),
       read_url E 84,
       push_event E 88 ''Navigate to store'']"

text \<open>Lines 96-172: the homepage analysis; its errors are logged and dropped.\<close>

definition homepage_body :: "env \<Rightarrow> stmt" where
  "homepage_body E =
     extract_lower E 97 (\<lambda>homepageStr.
       block [
         push_findings (homepage_findings homepageStr),
         push_event E 165 ''Analyzed homepage UX''])"

definition homepage :: "env \<Rightarrow> stmt" where
  "homepage E = try_catch (homepage_body E) (\<lambda>homepageError. block [])"

text \<open>Lines 251-358: the product page analysis, inside the product discovery block.\<close>

definition product_page_analysis :: "env \<Rightarrow> stmt" where
  "product_page_analysis E =
     try_catch
       (extract_lower E 252 (\<lambda>productStr.
          block [
            push_findings (product_findings productStr),
            push_event E 351 ''Analyzed product page UX'']))
       (\<lambda>productAnalysisError. block [])"

text \<open>Lines 183-358: the body of the product discovery \<open>try\<close>.\<close>

definition product_discovery_body :: "env \<Rightarrow> jstr \<Rightarrow> stmt" where
  "product_discovery_body E storeUrl =
     extract_lower E 184 (\<lambda>initialCheckStr.
       block [
         when_c (inc initialCheckStr ''homepage'' \<or> inc initialCheckStr ''navigate''
                 \<or> \<not> inc initialCheckStr ''price'')
           (block [
              act E 193,
              read_url E 201,
              when_v (\<lambda>s. currentUrl s = storeUrl \<or> currentUrl s = storeUrl @ asc ''/'')
                (block [act E 207, read_url E 212])]),
         act E 218,
         read_url E 226,
         extract_lower E 230 (\<lambda>pageCheckStr.
           block [
             when_c (\<not> inc pageCheckStr ''yes'') (block [act E 237, read_url E 239]),
             push_event E 243 ''Navigated to product page'',
             product_page_analysis E])])"

text \<open>Lines 360-370: the handler of the product discovery \<open>try\<close>, and the finding it pushes.\<close>

definition no_products_finding :: "thrown \<Rightarrow> Finding" where
  "no_products_finding e =
     finding_ev ''no-products'' Critical
       ''Could not find products''
       ''Unable to locate any clickable products on the page''
       (asc ''Error: '' @ error_message e)
       ''Ensure products are clearly visible and clickable on the homepage or add a shop/products link''"

definition product_discovery_catch :: "thrown \<Rightarrow> stmt" where
  "product_discovery_catch e =
     block [
       push_findings [no_products_finding e],
       set_dropOffStep ''product_discovery'']"

text \<open>Lines 174-370.\<close>

definition product_discovery :: "env \<Rightarrow> jstr \<Rightarrow> stmt" where
  "product_discovery E storeUrl =
     block [
       push_event E 176 ''Looking for products'',
       try_catch (product_discovery_body E storeUrl) product_discovery_catch]"

text \<open>\<open>Math.round(d / 1000)\<close> for an integer \<open>d\<close>: halves round up.\<close>

definition round_div_1000 :: "int \<Rightarrow> int" where
  "round_div_1000 d = (d + 500) div 1000"

text \<open>Lines 382-624: the body of the add-to-cart \<open>try\<close>.\<close>

definition add_to_cart_body :: "env \<Rightarrow> stmt" where
  "add_to_cart_body E =
     block [
       act E 384,
       extract_lower E 395 (\<lambda>errorCheckStr.
         when_c (needsVariantSelection errorCheckStr)
           (block [
              push_event_url E 426 ''Detected size/variant selection required'',
              act E 433,
              act E 443,
              extract_lower E 449 (\<lambda>secondErrorStr.
                when_c (stillSizeError secondErrorStr) (act E 456))])),
       read_url E 468,
       extract_lower E 471 (\<lambda>cartCheckStr.
         if hasItems cartCheckStr
         then block [
                modify (\<lambda>s. s\<lparr>addToCartTime := Some (Date_now E 484),
                               timeToAddToCart := Some (round_div_1000 (Date_now E 484 - Date_now E 45)),
                               addToCartSuccess := True\<rparr>),
                push_event E 489 ''Added product to cart'',
                try_catch
                  (extract_lower E 498 (\<lambda>cartExpStr.
                     block [
                       push_findings (cart_findings cartExpStr),
                       push_event E 562 ''Analyzed cart experience'']))
                  (\<lambda>cartAnalysisError. block [])]
         else extract_lower E 575 (\<lambda>finalErrorStr.
                block [
                  push_findings [add_to_cart_failure_finding cartCheckStr finalErrorStr],
                  set_dropOffStep ''add_to_cart'']))]"

text \<open>Lines 625-635: the handler of the add-to-cart \<open>try\<close>.\<close>

definition add_to_cart_catch :: "thrown \<Rightarrow> stmt" where
  "add_to_cart_catch e =
     block [
       push_findings [finding_ev ''add-to-cart-failed'' Critical
          ''Add to Cart Failed''
          ''Could not add the product to cart''
          (asc ''Error: '' @ error_message e)
          ''Ensure the Add to Cart button is clearly visible and functional''],
       set_dropOffStep ''add_to_cart'']"

text \<open>Lines 372-636.\<close>

definition add_to_cart :: "env \<Rightarrow> stmt" where
  "add_to_cart E =
     when_v (\<lambda>s. falsy (dropOffStep s))
       (block [
          push_event E 375 ''Looking for Add to Cart button'',
          try_catch (add_to_cart_body E) add_to_cart_catch])"

text \<open>Lines 691-961: the body of the form filling \<open>try\<close>.\<close>

definition checkout_form_body :: "env \<Rightarrow> stmt" where
  "checkout_form_body E =
     block [
       extract_lower E 695 (\<lambda>loginCheckStr.
         when_c (inc loginCheckStr ''login'' \<or> inc loginCheckStr ''guest'') (act E 700)),
       push_event_url E 705 ''Handling login/guest checkout'',
       act E 713,
       push_event_url E 721 ''Filled contact information'',
       act E 729,
       push_event_url E 738 ''Filled name fields'',
       act E 746,
       push_event_url E 759 ''Filled address fields'',
       extract_lower E 766 (\<lambda>modalCheckStr.
         when_c (inc modalCheckStr ''modal'' \<or> inc modalCheckStr ''popup''
                 \<or> inc modalCheckStr ''kaydet'' \<or> inc modalCheckStr ''save'')
           (block [act E 771, push_event_url E 775 ''Saved address from modal''])),
       act E 784,
       push_event_url E 792 ''Selected shipping method'',
       act E 800,
       read_url E 805,
       push_event E 808 ''Filled checkout form with dummy data'',
       extract_raw E 815 (\<lambda>analysisStr.
         block [
           push_findings (checkout_findings (numberToString E) analysisStr (toLowerCase E analysisStr)),
           push_event E 957 ''Analyzed checkout page for UX issues''])]"

text \<open>Lines 963-973: the handler of the form filling \<open>try\<close>, and the finding it pushes.\<close>

definition checkout_form_issues_finding :: "thrown \<Rightarrow> Finding" where
  "checkout_form_issues_finding formError =
     finding_ev ''checkout-form-issues'' Warning
       ''Checkout Form Difficulties''
       ''The AI agent had difficulty filling out the checkout form''
       (asc ''Error: '' @ error_message formError)
       ''Simplify checkout form, reduce required fields, and ensure clear labels''"

definition checkout_form_catch :: "thrown \<Rightarrow> stmt" where
  "checkout_form_catch formError = push_findings [checkout_form_issues_finding formError]"

text \<open>Lines 647-973: the body of the checkout \<open>try\<close>.\<close>

definition checkout_body :: "env \<Rightarrow> stmt" where
  "checkout_body E =
     block [
       act E 649,
       read_url E 652,
       push_event E 655 ''Clicked cart/checkout button'',
       extract_lower E 662 (\<lambda>cartInfoStr.
         when_c (inc cartInfoStr ''cart'' \<or> inc cartInfoStr ''sepet'')
           (block [
              act E 667,
              read_url E 670,
              push_event E 673 ''Proceeded to checkout from cart''])),
       modify (\<lambda>s. s\<lparr>checkoutReached := True\<rparr>),
       push_event E 684 ''Filling checkout form'',
       try_catch (checkout_form_body E) checkout_form_catch]"

text \<open>Lines 975-985: the handler of the checkout \<open>try\<close>.\<close>

definition checkout_catch :: "thrown \<Rightarrow> stmt" where
  "checkout_catch e =
     block [
       set_dropOffStep ''checkout_navigation'',
       push_findings [finding_ev ''checkout-failed'' Critical
          ''Could not reach checkout''
          ''Failed to navigate to checkout after adding to cart''
          (asc ''Error: '' @ error_message e)
          ''Ensure checkout flow is accessible and intuitive'']]"

text \<open>Lines 638-986.\<close>

definition checkout :: "env \<Rightarrow> stmt" where
  "checkout E =
     when_v (\<lambda>s. addToCartSuccess s \<and> falsy (dropOffStep s))
       (block [
          push_event E 641 ''Navigating to cart/checkout'',
          try_catch (checkout_body E) checkout_catch])"

text \<open>Lines 59-986: everything of the outer \<open>try\<close> before the score.\<close>

definition stages :: "env \<Rightarrow> jstr \<Rightarrow> stmt" where
  "stages E storeUrl =
     block [
       navigate E storeUrl,
       homepage E,
       product_discovery E storeUrl,
       add_to_cart E,
       checkout E]"

section \<open>Scoring and the result\<close>

text \<open>Line 996: \<open>timeline.some(t => t.action.includes('Filled checkout form'))\<close>.\<close>

definition checkoutFormFilled :: "TimelineEvent list \<Rightarrow> bool" where
  "checkoutFormFilled events = list_ex (\<lambda>t. inc (action t) ''Filled checkout form'') events"

text \<open>\<open>findings.filter(f => f.category === c).length\<close>.\<close>

definition count_category :: "category \<Rightarrow> Finding list \<Rightarrow> int" where
  "count_category c fs = int (length (filter (\<lambda>f. category f = c) fs))"

text \<open>Lines 989-1016.\<close>

definition compute_score :: "bool \<Rightarrow> bool \<Rightarrow> bool \<Rightarrow> Finding list \<Rightarrow> int" where
  "compute_score atc reached filled fs =
     (let score = 0;
          score = (if atc then score + 20 else score);
          score = (if reached then score + 20 else score);
          score = (if filled then score + 20 else score);
          uxScore = 40;
          uxScore = uxScore - count_category Critical fs * 15;
          uxScore = uxScore - count_category Warning fs * 8;
          uxScore = uxScore - count_category Suggestion fs * 5;
          score = score + max 0 uxScore
      in max 0 (min 100 score))"

text \<open>
  Lines 1018-1061: the positive findings. \<open>timeToAddToCart && timeToAddToCart < 30\<close>
  holds for a number that is neither \<open>null\<close> nor zero and is below 30.
\<close>

definition positive_findings :: "env \<Rightarrow> locals \<Rightarrow> bool \<Rightarrow> Finding list" where
  "positive_findings E s filled =
     (if addToCartSuccess s
      then [finding ''successful-add-to-cart'' Positive
              ''Add to Cart Works''
              ''Products can be successfully added to the shopping cart''
              ''Successfully added a product to cart during analysis''
              ''Continue maintaining this core functionality'']
           @ (case timeToAddToCart s of
                None \<Rightarrow> []
              | Some t \<Rightarrow>
                  if t \<noteq> 0 \<and> t < 30
                  then [\<lparr>finding_id = asc ''fast-add-to-cart'', category = Positive,
                         title = asc ''Fast Add-to-Cart Experience'',
                         description = asc ''Product was added to cart in '' @ numberToString E t
                                       @ asc '' seconds'',
                         evidence = asc ''Time from page load to cart: '' @ numberToString E t @ asc ''s'',
                         recommendation = asc ''Keep maintaining this smooth experience''\<rparr>]
                  else [])
      else [])
     @ (if checkoutReached s
        then [finding ''successful-checkout-reach'' Positive
                ''Checkout Flow Accessible''
                ''Users can navigate from product to checkout successfully''
                ''Checkout page reached during analysis''
                ''The checkout funnel is working - focus on optimization'']
        else [])
     @ (if filled
        then [finding ''successful-form-fill'' Positive
                ''Checkout Form Functional''
                ''The checkout form accepts customer information correctly''
                ''Form fields were successfully filled during analysis''
                ''Form is usable - consider optimizing for speed'']
        else [])"

text \<open>Lines 37-46: the locals at the start (\<open>currentUrl\<close> is declared at line 84).\<close>

definition initial_locals :: locals where
  "initial_locals =
     \<lparr>timeline_v = [], findings_v = [], addToCartSuccess = False, checkoutReached = False,
      dropOffStep = None, timeToAddToCart = None, sessionUrl = None, addToCartTime = None,
      currentUrl = [], closeCalls = 0\<rparr>"

text \<open>
  Lines 1065-1080: the object the outer \<open>try\<close> block returns, from the score, the
  \<open>checkoutFormFilled\<close> constant and the locals.
\<close>

definition completed_result :: "jstr \<Rightarrow> jstr \<Rightarrow> int \<Rightarrow> bool \<Rightarrow> locals \<Rightarrow> AnalysisResult" where
  "completed_result storeUrl runId points filled s =
     \<lparr>run_id = runId, store_url = storeUrl, status = Completed, score = points,
      metrics = \<lparr>add_to_cart_success = addToCartSuccess s,
                 time_to_add_to_cart_seconds = timeToAddToCart s,
                 checkout_reached = checkoutReached s,
                 checkout_form_filled = filled,
                 drop_off_step = dropOffStep s\<rparr>,
      findings = findings_v s, timeline = timeline_v s,
      session_url = sessionUrl s, error = None\<rparr>"

text \<open>
  Lines 58-1080, the outer \<open>try\<close> block: the stages, the score (lines 988-1016), the
  positive findings, \<open>await stagehand.close()\<close> (line 1063) and the returned object.
  \<open>Inl e\<close>: the block threw \<open>e\<close>, with the locals as they were then.
\<close>

definition try_block :: "env \<Rightarrow> jstr \<Rightarrow> jstr \<Rightarrow> locals \<Rightarrow> (thrown + AnalysisResult) \<times> locals" where
  "try_block E storeUrl runId s0 =
     (case stages E storeUrl s0 of
        (Some e, s1) \<Rightarrow> (Inl e, s1)
      | (None, s1) \<Rightarrow>
          (let filled = checkoutFormFilled (timeline_v s1);
               score = compute_score (addToCartSuccess s1) (checkoutReached s1) filled (findings_v s1);
               s2 = s1\<lparr>findings_v := findings_v s1 @ positive_findings E s1 filled\<rparr>;
               s3 = s2\<lparr>closeCalls := closeCalls s2 + 1\<rparr>
           in case stagehand_close E 1063 of
                Some e \<Rightarrow> (Inl e, s3)
              | None \<Rightarrow> (Inr (completed_result storeUrl runId score filled s3), s3)))"

text \<open>
  Lines 1084-1088: \<open>try { await stagehand.close(); } catch { }\<close> of the outer handler.
\<close>

definition close_quietly :: "env \<Rightarrow> stmt" where
  "close_quietly E =
     try_catch
       (block [modify (\<lambda>s. s\<lparr>closeCalls := closeCalls s + 1\<rparr>), await (stagehand_close E 1085)])
       (\<lambda>e. block [])"

text \<open>Lines 1090-1113: the object the outer handler returns, and its one finding.\<close>

definition analysis_failed_finding :: "thrown \<Rightarrow> Finding" where
  "analysis_failed_finding err =
     finding_ev ''analysis-failed'' Critical
       ''Analysis Failed''
       ''The analysis could not be completed''
       (error_message err)
       ''Check if the store URL is accessible''"

definition failed_result :: "jstr \<Rightarrow> jstr \<Rightarrow> thrown \<Rightarrow> locals \<Rightarrow> AnalysisResult" where
  "failed_result storeUrl runId err s =
     \<lparr>run_id = runId, store_url = storeUrl, status = Failed, score = 0,
      metrics = \<lparr>add_to_cart_success = False, time_to_add_to_cart_seconds = None,
                 checkout_reached = False, checkout_form_filled = False,
                 drop_off_step = Some (asc ''initialization'')\<rparr>,
      findings = [analysis_failed_finding err],
      timeline = timeline_v s, session_url = sessionUrl s,
      error = Some (error_message err)\<rparr>"

text \<open>
  \<open>runAnalysis\<close>, lines 36-1115, with the number of \<open>stagehand.close()\<close> invocations of
  the run. \<open>Inl e\<close>: the promise rejects with \<open>e\<close>. The import and the constructor
  (lines 49-56) are outside the \<open>try\<close>.
\<close>

definition runAnalysis_closes :: "env \<Rightarrow> jstr \<Rightarrow> jstr \<Rightarrow> (thrown + AnalysisResult) \<times> nat" where
  "runAnalysis_closes E storeUrl runId =
     (case new_Stagehand E of
        Some e \<Rightarrow> (Inl e, 0)
      | None \<Rightarrow>
          (case try_block E storeUrl runId initial_locals of
             (Inr result, s) \<Rightarrow> (Inr result, closeCalls s)
           | (Inl err, s) \<Rightarrow>
               (case close_quietly E s of
                  (_, s1) \<Rightarrow> (Inr (failed_result storeUrl runId err s1), closeCalls s1))))"

definition runAnalysis :: "env \<Rightarrow> jstr \<Rightarrow> jstr \<Rightarrow> thrown + AnalysisResult" where
  "runAnalysis E storeUrl runId = fst (runAnalysis_closes E storeUrl runId)"

section \<open>Reasoning about statements\<close>

text \<open>
  \<open>hoare P c Q X\<close>: from locals that satisfy \<open>P\<close>, the statement \<open>c\<close> ends in locals
  that satisfy \<open>Q\<close> when it completes and \<open>X\<close> when it throws. \<open>preserves I c\<close>: the
  invariant \<open>I\<close> survives \<open>c\<close> either way.
\<close>

definition hoare :: "(locals \<Rightarrow> bool) \<Rightarrow> stmt \<Rightarrow> (locals \<Rightarrow> bool) \<Rightarrow> (locals \<Rightarrow> bool) \<Rightarrow> bool" where
  "hoare P c Q X = (\<forall>s. P s \<longrightarrow> (case c s of (None, s1) \<Rightarrow> Q s1 | (Some e, s1) \<Rightarrow> X s1))"

definition preserves :: "(locals \<Rightarrow> bool) \<Rightarrow> stmt \<Rightarrow> bool" where
  "preserves I c = hoare I c I I"

section \<open>Invariants of the stages\<close>

text \<open>
  The elapsed time is set exactly when add-to-cart has succeeded; when the clock did not
  run backwards (\<open>forward\<close>) it is not negative.
\<close>

definition cart_time_inv :: "bool \<Rightarrow> locals \<Rightarrow> bool" where
  "cart_time_inv forward s =
     ((timeToAddToCart s \<noteq> None \<longleftrightarrow> addToCartSuccess s)
      \<and> (forward \<longrightarrow> (\<forall>t. timeToAddToCart s = Some t \<longrightarrow> 0 \<le> t)))"

text \<open>No event of the timeline says that the checkout form was filled.\<close>

definition no_filled :: "locals \<Rightarrow> bool" where
  "no_filled s = (\<not> checkoutFormFilled (timeline_v s))"

definition no_drop :: "locals \<Rightarrow> bool" where
  "no_drop s = (dropOffStep s = None)"

text \<open>What holds until the checkout stage, on entering its \<open>try\<close>, and after it.\<close>

definition before_checkout :: "locals \<Rightarrow> bool" where
  "before_checkout s = (no_filled s \<and> dropOffStep s \<noteq> Some [])"

definition entering_checkout :: "locals \<Rightarrow> bool" where
  "entering_checkout s = (no_filled s \<and> no_drop s)"

definition filled_post :: "locals \<Rightarrow> bool" where
  "filled_post s = (dropOffStep s \<noteq> None \<longrightarrow> no_filled s)"

text \<open>
  What relates the drop-off step to the stage flags: before add-to-cart; inside its
  \<open>try\<close>, before and after the success; after the stage; on entering the checkout
  \<open>try\<close>; once checkout is reached; after a drop-off of checkout; and at the end.
\<close>

definition funnel_start :: "locals \<Rightarrow> bool" where
  "funnel_start s = (\<not> addToCartSuccess s \<and> \<not> checkoutReached s \<and> dropOffStep s \<noteq> Some [])"

definition not_reached :: "locals \<Rightarrow> bool" where
  "not_reached s = (\<not> checkoutReached s \<and> dropOffStep s \<noteq> Some [])"

definition carted :: "locals \<Rightarrow> bool" where
  "carted s = (not_reached s \<and> addToCartSuccess s)"

definition after_cart :: "locals \<Rightarrow> bool" where
  "after_cart s = (not_reached s \<and> (dropOffStep s = None \<longrightarrow> addToCartSuccess s))"

definition at_checkout :: "locals \<Rightarrow> bool" where
  "at_checkout s = (dropOffStep s = None \<and> \<not> checkoutReached s)"

definition in_checkout :: "locals \<Rightarrow> bool" where
  "in_checkout s = (dropOffStep s = None \<and> checkoutReached s)"

definition dropped :: "locals \<Rightarrow> bool" where
  "dropped s = (dropOffStep s \<noteq> None \<and> \<not> checkoutReached s)"

definition reached_post :: "locals \<Rightarrow> bool" where
  "reached_post s = (dropOffStep s = None \<longleftrightarrow> checkoutReached s)"

text \<open>The number of \<open>stagehand.close()\<close> invocations so far.\<close>

definition close_calls_are :: "nat \<Rightarrow> locals \<Rightarrow> bool" where
  "close_calls_are n s = (closeCalls s = n)"

text \<open>
  What holds until the product discovery \<open>try\<close> has completed: nothing of the funnel
  has succeeded or failed yet, and the findings are the homepage ones.
\<close>

definition before_cart :: "locals \<Rightarrow> bool" where
  "before_cart s =
     (\<not> addToCartSuccess s \<and> \<not> checkoutReached s \<and> no_filled s \<and> dropOffStep s = None
      \<and> list_all (\<lambda>f. category f \<noteq> Critical \<and> category f \<noteq> Positive
                       \<and> finding_id f \<noteq> asc ''no-products'') (findings_v s))"

section \<open>The cart-success decision as the specification words it\<close>

text \<open>
  The specification lists the excluded patterns as \<open>0\<close>, \<open>0 item\<close>, \<open>empty\<close>, \<open>no item\<close>
  and the required ones as \<open>1\<close>, \<open>item\<close>, \<open>added\<close>, \<open>eklendi\<close>, \<open>success\<close>.
  \<open>hasItems_as_specified\<close> follows those words, with the digit zero as first pattern;
  \<open>hasItems\<close> above follows the source, whose first pattern is the zero between double
  quotes.
\<close>

definition hasItems_as_specified :: "jstr \<Rightarrow> bool" where
  "hasItems_as_specified cartCheckStr =
     (\<not> inc cartCheckStr ''0''
      \<and> \<not> inc cartCheckStr ''0 item''
      \<and> \<not> inc cartCheckStr ''empty''
      \<and> \<not> inc cartCheckStr ''no item''
      \<and> (inc cartCheckStr ''1'' \<or> inc cartCheckStr ''item'' \<or> inc cartCheckStr ''added''
         \<or> inc cartCheckStr ''eklendi'' \<or> inc cartCheckStr ''success''))"

section \<open>Concrete runs\<close>

text \<open>\<open>JSON.stringify\<close> of a string without characters to escape.\<close>

definition json_string :: "string \<Rightarrow> jstr" where
  "json_string t = [34] @ asc t @ [34]"

text \<open>The decimal text of an integer, the instance of \<open>numberToString\<close> on concrete inputs.\<close>

fun digits :: "nat \<Rightarrow> jstr" where
  "digits n = (if n < 10 then [48 + n] else digits (n div 10) @ [48 + n mod 10])"

definition decimal :: "int \<Rightarrow> jstr" where
  "decimal i = (if i < 0 then asc ''-'' @ digits (nat (- i)) else digits (nat i))"

text \<open>
  A store on which every stage succeeds and no rule fires: what each \<open>extract\<close> call
  returns, by line.
\<close>

definition shop_replies :: "nat \<Rightarrow> thrown + jstr" where
  "shop_replies line = Inr (json_string
     (if line = 97 then ''Search bar in header, navigation clear''
      else if line = 184 then ''Products with price''
      else if line = 230 then ''YES''
      else if line = 252 then ''Price shown, reviews shown, in stock, shipping info''
      else if line = 471 then ''1 item''
      else if line = 498 then ''Feedback, free shipping, upsell''
      else if line = 815 then ''Discount, upsell, trust, free shipping, progress''
      else ''None''))"

text \<open>
  The environment of that store, with four things left open: \<open>lookup\<close>, when not \<open>None\<close>,
  is thrown by the first \<open>extract\<close> of product discovery (line 184); \<open>cartTime\<close> is the
  clock reading of line 484 (the reading of line 45 is 10000); \<open>fill\<close> is the outcome of
  the first form-filling \<open>act\<close> (line 713); \<open>closing\<close> is the outcome of every
  \<open>stagehand.close()\<close>.
\<close>

definition shop :: "thrown option \<Rightarrow> int \<Rightarrow> thrown option \<Rightarrow> thrown option \<Rightarrow> env" where
  "shop lookup cartTime fill closing =
     \<lparr>new_Stagehand = None, stagehand_init = None, browserbaseSessionID = Some (asc ''s1''),
      context_pages = Inr True, page_goto = None,
      page_url = (\<lambda>line. asc ''https://shop.example/p''),
      stagehand_extract =
        (\<lambda>line. if line = 184 then (case lookup of Some e \<Rightarrow> Inl e | None \<Rightarrow> shop_replies line)
                else shop_replies line),
      stagehand_act = (\<lambda>line. if line = 713 then fill else None),
      stagehand_close = (\<lambda>line. closing),
      Date_now = (\<lambda>line. if line = 45 then 10000 else cartTime),
      toISOString = (\<lambda>line. asc ''2026-01-01T00:00:00.000Z''),
      toLowerCase = ascii_lower,
      numberToString = decimal\<rparr>"

definition shop_url :: jstr where
  "shop_url = asc ''https://shop.example''"

definition run1 :: jstr where
  "run1 = asc ''run-1''"

definition lookup_error :: thrown where
  "lookup_error = ErrorObj (asc ''extract timed out'')"

definition fill_error :: thrown where
  "fill_error = ErrorObj (asc ''no such field'')"

definition close_error :: thrown where
  "close_error = ErrorObj (asc ''session already closed'')"

definition init_error :: thrown where
  "init_error = ErrorObj (asc ''session refused'')"

definition import_error :: thrown where
  "import_error = ErrorObj (asc ''Cannot find module'')"

text \<open>The locals of a run on that store after some events, and after add-to-cart.\<close>

definition shop_event :: "string \<Rightarrow> TimelineEvent" where
  "shop_event label =
     \<lparr>timestamp = asc ''2026-01-01T00:00:00.000Z'', action = asc label,
      url = asc ''https://shop.example/p'', success = True\<rparr>"

definition shop_locals :: "string list \<Rightarrow> locals" where
  "shop_locals labels =
     initial_locals\<lparr>timeline_v := map shop_event labels,
                    sessionUrl := Some (asc ''https://browserbase.com/sessions/s1''),
                    currentUrl := asc ''https://shop.example/p''\<rparr>"

definition shop_cart_locals :: "int \<Rightarrow> bool \<Rightarrow> Finding list \<Rightarrow> string list \<Rightarrow> locals" where
  "shop_cart_locals cartTime reached fs labels =
     (shop_locals labels)\<lparr>addToCartTime := Some cartTime,
                           timeToAddToCart := Some (round_div_1000 (cartTime - 10000)),
                           addToCartSuccess := True, checkoutReached := reached, findings_v := fs\<rparr>"

definition labels_homepage :: "string list" where
  "labels_homepage = [''Navigate to store'', ''Analyzed homepage UX'']"

definition labels_product :: "string list" where
  "labels_product = labels_homepage @
     [''Looking for products'', ''Navigated to product page'', ''Analyzed product page UX'']"

definition labels_cart :: "string list" where
  "labels_cart = labels_product @
     [''Looking for Add to Cart button'', ''Added product to cart'', ''Analyzed cart experience'']"

definition labels_checkout :: "string list" where
  "labels_checkout = labels_cart @
     [''Navigating to cart/checkout'', ''Clicked cart/checkout button'', ''Filling checkout form'',
      ''Handling login/guest checkout'']"

definition labels_form :: "string list" where
  "labels_form = labels_checkout @
     [''Filled contact information'', ''Filled name fields'', ''Filled address fields'',
      ''Selected shipping method'', ''Filled checkout form with dummy data'',
      ''Analyzed checkout page for UX issues'']"

text \<open>The locals when the stages have run: every stage done; form filling failed; no product found.\<close>

definition shop_done :: "int \<Rightarrow> locals" where
  "shop_done cartTime = shop_cart_locals cartTime True [] labels_form"

definition shop_form_failed :: "int \<Rightarrow> thrown \<Rightarrow> locals" where
  "shop_form_failed cartTime e =
     shop_cart_locals cartTime True [checkout_form_issues_finding e] labels_checkout"

definition shop_no_products :: "thrown \<Rightarrow> locals" where
  "shop_no_products e =
     (shop_locals (labels_homepage @ [''Looking for products'']))
       \<lparr>findings_v := [no_products_finding e], dropOffStep := Some (asc ''product_discovery'')\<rparr>"

text \<open>The locals when the outer \<open>try\<close> block ends: positive findings pushed, \<open>close\<close> invoked.\<close>

definition closing_locals :: "env \<Rightarrow> locals \<Rightarrow> locals" where
  "closing_locals E s =
     s\<lparr>findings_v := findings_v s @ positive_findings E s (checkoutFormFilled (timeline_v s)),
       closeCalls := closeCalls s + 1\<rparr>"

text \<open>
  Four stores of that kind: one whose session cannot be closed, the same with product
  discovery failing, one whose session does not start, and one for which the import or
  the constructor fails.
\<close>

definition unclosable_shop :: env where
  "unclosable_shop = shop None 22400 None (Some close_error)"

definition unclosable_shop_without_products :: env where
  "unclosable_shop_without_products = shop (Some lookup_error) 22400 None (Some close_error)"

definition refusing_shop :: env where
  "refusing_shop = (shop None 22400 None None)\<lparr>stagehand_init := Some init_error\<rparr>"

definition unimportable_shop :: env where
  "unimportable_shop = (shop None 22400 None None)\<lparr>new_Stagehand := Some import_error\<rparr>"

text \<open>The observation texts of the two scenarios of the specification, and one more.\<close>

definition scenario_A :: string where
  "scenario_A = ''no search bar visible, navigation is clear''"

definition scenario_B_empty :: string where
  "scenario_B_empty = ''cart icon shows 0 items, no success message''"

definition scenario_B_added :: string where
  "scenario_B_added = ''cart icon shows 1 item, sepete eklendi''"

definition cart_of_100_tl :: string where
  "cart_of_100_tl = ''2 products, total 100 tl, added to cart''"

section \<open>Rules for statements\<close>

lemma hoare_modify: "(\<And>s. P s \<Longrightarrow> Q (f s)) \<Longrightarrow> hoare P (modify f) Q X"
  by (simp add: hoare_def modify_def)

lemma hoare_throw: "(\<And>s. P s \<Longrightarrow> X s) \<Longrightarrow> hoare P (throw e) Q X"
  by (simp add: hoare_def throw_def)

lemma hoare_await: "(\<And>s. P s \<Longrightarrow> Q s) \<Longrightarrow> (\<And>s. P s \<Longrightarrow> X s) \<Longrightarrow> hoare P (await r) Q X"
  by (cases r) (simp_all add: hoare_def await_def)

lemma hoare_block_nil: "(\<And>s. P s \<Longrightarrow> Q s) \<Longrightarrow> hoare P (block []) Q X"
  by (simp add: hoare_def)

lemma hoare_block_cons:
  "hoare P c R X \<Longrightarrow> hoare R (block cs) Q X \<Longrightarrow> hoare P (block (c # cs)) Q X"
  by (fastforce simp: hoare_def split: prod.splits option.splits)

lemma hoare_try_catch:
  "hoare P b Q Y \<Longrightarrow> (\<And>e. hoare Y (h e) Q X) \<Longrightarrow> hoare P (try_catch b h) Q X"
  by (fastforce simp: hoare_def try_catch_def split: prod.splits option.splits)

lemma hoare_when_v:
  "hoare (\<lambda>s. P s \<and> cond s) c Q X \<Longrightarrow> (\<And>s. P s \<Longrightarrow> \<not> cond s \<Longrightarrow> Q s)
   \<Longrightarrow> hoare P (when_v cond c) Q X"
  by (simp add: hoare_def when_v_def)

lemma hoare_when_c:
  "(b \<Longrightarrow> hoare P c Q X) \<Longrightarrow> (\<And>s. \<not> b \<Longrightarrow> P s \<Longrightarrow> Q s) \<Longrightarrow> hoare P (when_c b c) Q X"
  by (simp add: hoare_def when_c_def)

lemma hoare_extract_lower:
  "(\<And>v. hoare P (k v) Q X) \<Longrightarrow> (\<And>s. P s \<Longrightarrow> X s) \<Longrightarrow> hoare P (extract_lower E l k) Q X"
  by (simp add: hoare_def extract_lower_def split: sum.splits)

lemma hoare_extract_raw:
  "(\<And>v. hoare P (k v) Q X) \<Longrightarrow> (\<And>s. P s \<Longrightarrow> X s) \<Longrightarrow> hoare P (extract_raw E l k) Q X"
  by (simp add: hoare_def extract_raw_def split: sum.splits)

lemma hoare_weaken:
  "hoare P' c Q' X' \<Longrightarrow> (\<And>s. P s \<Longrightarrow> P' s) \<Longrightarrow> (\<And>s. Q' s \<Longrightarrow> Q s) \<Longrightarrow> (\<And>s. X' s \<Longrightarrow> X s)
   \<Longrightarrow> hoare P c Q X"
  by (fastforce simp: hoare_def split: prod.splits option.splits)

lemma hoare_completes: "hoare P c Q X \<Longrightarrow> P s \<Longrightarrow> c s = (None, s1) \<Longrightarrow> Q s1"
  by (fastforce simp: hoare_def)

lemma hoare_throws: "hoare P c Q X \<Longrightarrow> P s \<Longrightarrow> c s = (Some e, s1) \<Longrightarrow> X s1"
  by (fastforce simp: hoare_def)

lemma preserves_result: "preserves I c \<Longrightarrow> I s \<Longrightarrow> c s = (x, s1) \<Longrightarrow> I s1"
  by (cases x) (fastforce simp: preserves_def hoare_def)+

lemma pres_modify: "(\<And>s. I s \<Longrightarrow> I (f s)) \<Longrightarrow> preserves I (modify f)"
  unfolding preserves_def by (rule hoare_modify)

lemma pres_throw: "preserves I (throw e)"
  unfolding preserves_def by (rule hoare_throw)

lemma pres_await: "preserves I (await r)"
  unfolding preserves_def by (rule hoare_await)

lemma pres_block_nil: "preserves I (block [])"
  unfolding preserves_def by (rule hoare_block_nil)

lemma pres_block_cons: "preserves I c \<Longrightarrow> preserves I (block cs) \<Longrightarrow> preserves I (block (c # cs))"
  unfolding preserves_def by (rule hoare_block_cons)

lemma pres_try_catch: "preserves I b \<Longrightarrow> (\<And>e. preserves I (h e)) \<Longrightarrow> preserves I (try_catch b h)"
  unfolding preserves_def by (rule hoare_try_catch)

lemma pres_when_v: "preserves I c \<Longrightarrow> preserves I (when_v cond c)"
  unfolding preserves_def by (rule hoare_when_v, erule hoare_weaken) auto

lemma pres_when_c: "preserves I c \<Longrightarrow> preserves I (when_c b c)"
  unfolding preserves_def by (rule hoare_when_c) auto

lemma pres_if: "preserves I c \<Longrightarrow> preserves I d \<Longrightarrow> preserves I (if b then c else d)"
  by simp

lemma pres_extract_lower: "(\<And>v. preserves I (k v)) \<Longrightarrow> preserves I (extract_lower E l k)"
  unfolding preserves_def by (rule hoare_extract_lower) auto

lemma pres_extract_raw: "(\<And>v. preserves I (k v)) \<Longrightarrow> preserves I (extract_raw E l k)"
  unfolding preserves_def by (rule hoare_extract_raw) auto

lemma pres_context_pages:
  "preserves I (\<lambda>s. case context_pages E of Inl e \<Rightarrow> (Some e, s)
       | Inr page \<Rightarrow> if \<not> page then throw err s else (None, s))"
  by (simp add: preserves_def hoare_def throw_def split: sum.splits)

lemma hoare_block_cons_pres:
  "preserves P c \<Longrightarrow> (\<And>s. P s \<Longrightarrow> X s) \<Longrightarrow> hoare P (block cs) Q X \<Longrightarrow> hoare P (block (c # cs)) Q X"
  unfolding preserves_def by (rule hoare_block_cons[where R = P], erule hoare_weaken) auto

lemmas pres_intros = pres_modify pres_throw pres_await pres_block_nil pres_block_cons pres_try_catch
  pres_when_v pres_when_c pres_if pres_extract_lower pres_extract_raw pres_context_pages

lemmas prim_defs = act_def read_url_def push_event_def push_event_url_def push_findings_def
  set_dropOffStep_def

section \<open>ASCII literals\<close>

lemma asc_eq_iff: "asc a = asc b \<longleftrightarrow> a = b"
  by (simp add: asc_def inj_map_eq_map[OF inj_of_char])

lemma asc_empty_iff: "asc a = [] \<longleftrightarrow> a = []"
  by (simp add: asc_def)

lemma starts_with_map:
  "inj f \<Longrightarrow> starts_with (map f s) (map f p) = starts_with s p"
  by (induction s p rule: starts_with.induct) (auto simp: inj_eq)

lemma str_includes_map:
  "inj f \<Longrightarrow> str_includes (map f s) (map f p) = str_includes s p"
proof (induction s)
  case Nil
  then show ?case by simp
next
  case (Cons c cs)
  from Cons.prems have "starts_with (map f (c # cs)) (map f p) = starts_with (c # cs) p"
    by (rule starts_with_map)
  with Cons show ?case by simp
qed

text \<open>An ASCII literal is searched as the character string it is written as.\<close>

lemma inc_asc: "inc (asc s) lit = str_includes s lit"
  by (simp add: inc_def asc_def str_includes_map[OF inj_of_char])

lemma list_all_if:
  "list_all P (if c then xs else ys) = (if c then list_all P xs else list_all P ys)"
  by simp

lemma list_ex_if:
  "list_ex P (if c then xs else ys) = (if c then list_ex P xs else list_ex P ys)"
  by simp

section \<open>The elapsed time is set with the success flag\<close>

lemma round_div_1000_nonneg: "0 \<le> d \<Longrightarrow> 0 \<le> round_div_1000 d"
  by (simp add: round_div_1000_def)

lemma cart_time_navigate: "preserves (cart_time_inv fw) (navigate E u)"
  unfolding navigate_def prim_defs
  by (intro pres_intros) (simp_all add: cart_time_inv_def split: option.splits)

lemma cart_time_homepage: "preserves (cart_time_inv fw) (homepage E)"
  unfolding homepage_def homepage_body_def prim_defs
  by (intro pres_intros) (simp_all add: cart_time_inv_def)

lemma cart_time_product_discovery: "preserves (cart_time_inv fw) (product_discovery E u)"
  unfolding product_discovery_def product_discovery_body_def product_discovery_catch_def
    product_page_analysis_def prim_defs
  by (intro pres_intros) (simp_all add: cart_time_inv_def)

lemma cart_time_add_to_cart:
  "(fw \<Longrightarrow> Date_now E 45 \<le> Date_now E 484) \<Longrightarrow> preserves (cart_time_inv fw) (add_to_cart E)"
  unfolding add_to_cart_def add_to_cart_body_def add_to_cart_catch_def prim_defs
  by (intro pres_intros) (simp_all add: cart_time_inv_def round_div_1000_nonneg)

lemma cart_time_checkout: "preserves (cart_time_inv fw) (checkout E)"
  unfolding checkout_def checkout_body_def checkout_catch_def checkout_form_body_def
    checkout_form_catch_def prim_defs
  by (intro pres_intros) (simp_all add: cart_time_inv_def)

lemma cart_time_stages:
  "(fw \<Longrightarrow> Date_now E 45 \<le> Date_now E 484) \<Longrightarrow> preserves (cart_time_inv fw) (stages E u)"
  unfolding stages_def
  by (intro pres_intros cart_time_navigate cart_time_homepage cart_time_product_discovery
      cart_time_add_to_cart cart_time_checkout)

lemma cart_time_initial: "cart_time_inv fw initial_locals"
  by (simp add: cart_time_inv_def initial_locals_def)

section \<open>The stages never invoke \<open>close\<close>\<close>

lemma close_calls_navigate: "preserves (close_calls_are n) (navigate E u)"
  unfolding navigate_def prim_defs
  by (intro pres_intros) (simp_all add: close_calls_are_def split: option.splits)

lemma close_calls_homepage: "preserves (close_calls_are n) (homepage E)"
  unfolding homepage_def homepage_body_def prim_defs
  by (intro pres_intros) (simp_all add: close_calls_are_def)

lemma close_calls_product_discovery: "preserves (close_calls_are n) (product_discovery E u)"
  unfolding product_discovery_def product_discovery_body_def product_discovery_catch_def
    product_page_analysis_def prim_defs
  by (intro pres_intros) (simp_all add: close_calls_are_def)

lemma close_calls_add_to_cart: "preserves (close_calls_are n) (add_to_cart E)"
  unfolding add_to_cart_def add_to_cart_body_def add_to_cart_catch_def prim_defs
  by (intro pres_intros) (simp_all add: close_calls_are_def)

lemma close_calls_checkout: "preserves (close_calls_are n) (checkout E)"
  unfolding checkout_def checkout_body_def checkout_catch_def checkout_form_body_def
    checkout_form_catch_def prim_defs
  by (intro pres_intros) (simp_all add: close_calls_are_def)

lemma close_calls_stages: "preserves (close_calls_are n) (stages E u)"
  unfolding stages_def
  by (intro pres_intros close_calls_navigate close_calls_homepage close_calls_product_discovery
      close_calls_add_to_cart close_calls_checkout)

section \<open>A drop-off step excludes the form-filled event\<close>

lemmas filled_defs = no_filled_def checkoutFormFilled_def inc_asc asc_empty_iff

lemma before_checkout_navigate: "preserves before_checkout (navigate E u)"
  unfolding navigate_def prim_defs
  by (intro pres_intros) (simp_all add: before_checkout_def filled_defs split: option.splits)

lemma before_checkout_homepage: "preserves before_checkout (homepage E)"
  unfolding homepage_def homepage_body_def prim_defs
  by (intro pres_intros) (simp_all add: before_checkout_def filled_defs)

lemma before_checkout_product_discovery: "preserves before_checkout (product_discovery E u)"
  unfolding product_discovery_def product_discovery_body_def product_discovery_catch_def
    product_page_analysis_def prim_defs
  by (intro pres_intros) (simp_all add: before_checkout_def filled_defs)

lemma before_checkout_add_to_cart: "preserves before_checkout (add_to_cart E)"
  unfolding add_to_cart_def add_to_cart_body_def add_to_cart_catch_def prim_defs
  by (intro pres_intros) (simp_all add: before_checkout_def filled_defs)

lemma no_drop_form: "preserves no_drop (checkout_form_body E)"
  unfolding checkout_form_body_def prim_defs
  by (intro pres_intros) (simp_all add: no_drop_def)

lemma checkout_form_never_throws:
  "hoare no_drop (try_catch (checkout_form_body E) checkout_form_catch) no_drop (\<lambda>s. False)"
proof (rule hoare_try_catch[where Y = no_drop])
  show "hoare no_drop (checkout_form_body E) no_drop no_drop"
    using no_drop_form by (simp add: preserves_def)
next
  fix e
  show "hoare no_drop (checkout_form_catch e) no_drop (\<lambda>s. False)"
    unfolding checkout_form_catch_def push_findings_def
    by (rule hoare_modify) (simp add: no_drop_def)
qed

lemma checkout_body_hoare: "hoare entering_checkout (checkout_body E) no_drop no_filled"
proof -
  have form: "hoare entering_checkout
          (block [try_catch (checkout_form_body E) checkout_form_catch]) no_drop no_filled"
  proof (rule hoare_block_cons[where R = no_drop])
    show "hoare entering_checkout (try_catch (checkout_form_body E) checkout_form_catch) no_drop no_filled"
      by (rule hoare_weaken[OF checkout_form_never_throws]) (simp_all add: entering_checkout_def)
    show "hoare no_drop (block []) no_drop no_filled"
      by (rule hoare_block_nil)
  qed
  have weaker: "\<And>s. entering_checkout s \<Longrightarrow> no_filled s"
    by (simp add: entering_checkout_def)
  show ?thesis
    unfolding checkout_body_def prim_defs
    apply (rule hoare_block_cons_pres)
    subgoal by (intro pres_intros)
    subgoal by (rule weaker)
    apply (rule hoare_block_cons_pres)
    subgoal by (intro pres_intros) (simp_all add: entering_checkout_def no_drop_def filled_defs)
    subgoal by (rule weaker)
    apply (rule hoare_block_cons_pres)
    subgoal by (intro pres_intros) (simp_all add: entering_checkout_def no_drop_def filled_defs)
    subgoal by (rule weaker)
    apply (rule hoare_block_cons_pres)
    subgoal by (intro pres_intros) (simp_all add: entering_checkout_def no_drop_def filled_defs)
    subgoal by (rule weaker)
    apply (rule hoare_block_cons_pres)
    subgoal by (intro pres_intros) (simp_all add: entering_checkout_def no_drop_def filled_defs)
    subgoal by (rule weaker)
    apply (rule hoare_block_cons_pres)
    subgoal by (intro pres_intros) (simp_all add: entering_checkout_def no_drop_def filled_defs)
    subgoal by (rule weaker)
    by (rule form)
qed

lemma no_filled_checkout_catch: "preserves no_filled (checkout_catch e)"
  unfolding checkout_catch_def prim_defs
  by (intro pres_intros) (simp_all add: no_filled_def)

lemma checkout_hoare: "hoare before_checkout (checkout E) filled_post filled_post"
  unfolding checkout_def
proof (rule hoare_when_v)
  have handled: "hoare entering_checkout (try_catch (checkout_body E) checkout_catch) filled_post filled_post"
  proof (rule hoare_try_catch[where Y = no_filled])
    show "hoare entering_checkout (checkout_body E) filled_post no_filled"
      by (rule hoare_weaken[OF checkout_body_hoare]) (simp_all add: filled_post_def no_drop_def)
    fix e
    show "hoare no_filled (checkout_catch e) filled_post filled_post"
      using no_filled_checkout_catch[of e] unfolding preserves_def
      by (rule hoare_weaken) (simp_all add: filled_post_def)
  qed
  have entered: "hoare entering_checkout
      (block [push_event E 641 ''Navigating to cart/checkout'', try_catch (checkout_body E) checkout_catch])
      filled_post filled_post"
  proof (rule hoare_block_cons_pres)
    show "preserves entering_checkout (push_event E 641 ''Navigating to cart/checkout'')"
      unfolding prim_defs
      by (intro pres_intros) (simp_all add: entering_checkout_def no_drop_def filled_defs)
    show "\<And>s. entering_checkout s \<Longrightarrow> filled_post s"
      by (simp add: entering_checkout_def filled_post_def)
    show "hoare entering_checkout (block [try_catch (checkout_body E) checkout_catch]) filled_post filled_post"
      by (rule hoare_block_cons[OF handled]) (rule hoare_block_nil)
  qed
  show "hoare (\<lambda>s. before_checkout s \<and> addToCartSuccess s \<and> falsy (dropOffStep s))
      (block [push_event E 641 ''Navigating to cart/checkout'', try_catch (checkout_body E) checkout_catch])
      filled_post filled_post"
  proof (rule hoare_weaken[OF entered])
    fix s
    assume "before_checkout s \<and> addToCartSuccess s \<and> falsy (dropOffStep s)"
    then show "entering_checkout s"
      by (cases "dropOffStep s") (simp_all add: before_checkout_def entering_checkout_def no_drop_def)
  qed
  show "\<And>s. before_checkout s \<Longrightarrow> \<not> (addToCartSuccess s \<and> falsy (dropOffStep s)) \<Longrightarrow> filled_post s"
    by (simp add: before_checkout_def filled_post_def)
qed

lemma stages_filled_post: "hoare before_checkout (stages E u) filled_post (\<lambda>s. True)"
  unfolding stages_def
  apply (rule hoare_block_cons_pres[OF before_checkout_navigate], simp)
  apply (rule hoare_block_cons_pres[OF before_checkout_homepage], simp)
  apply (rule hoare_block_cons_pres[OF before_checkout_product_discovery], simp)
  apply (rule hoare_block_cons_pres[OF before_checkout_add_to_cart], simp)
  apply (rule hoare_block_cons[where R = filled_post])
   apply (rule hoare_weaken[OF checkout_hoare], simp_all)
  by (rule hoare_block_nil)

lemma before_checkout_initial: "before_checkout initial_locals"
  by (simp add: before_checkout_def no_filled_def checkoutFormFilled_def initial_locals_def)

section \<open>The drop-off step is null exactly when checkout is reached\<close>

lemma hoare_if:
  "(b \<Longrightarrow> hoare P c Q X) \<Longrightarrow> (\<not> b \<Longrightarrow> hoare P d Q X) \<Longrightarrow> hoare P (if b then c else d) Q X"
  by simp

lemma falsy_iff: "falsy d \<longleftrightarrow> d = None \<or> d = Some []"
  by (cases d) auto

lemmas reach_defs = funnel_start_def not_reached_def carted_def after_cart_def at_checkout_def
  in_checkout_def dropped_def reached_post_def asc_empty_iff falsy_iff

lemma funnel_start_navigate: "preserves funnel_start (navigate E u)"
  unfolding navigate_def prim_defs
  by (intro pres_intros) (simp_all add: reach_defs split: option.splits)

lemma funnel_start_homepage: "preserves funnel_start (homepage E)"
  unfolding homepage_def homepage_body_def prim_defs
  by (intro pres_intros) (simp_all add: reach_defs)

lemma funnel_start_product_discovery: "preserves funnel_start (product_discovery E u)"
  unfolding product_discovery_def product_discovery_body_def product_discovery_catch_def
    product_page_analysis_def prim_defs
  by (intro pres_intros) (simp_all add: reach_defs)

text \<open>
  The body of the add-to-cart \<open>try\<close> completes with the success flag set or with a
  drop-off step; whatever it throws, checkout is not reached.
\<close>

lemma add_to_cart_body_hoare: "hoare not_reached (add_to_cart_body E) after_cart not_reached"
proof -
  have success: "hoare not_reached
      (block [modify (\<lambda>s. s\<lparr>addToCartTime := Some (Date_now E 484),
                               timeToAddToCart := Some (round_div_1000 (Date_now E 484 - Date_now E 45)),
                               addToCartSuccess := True\<rparr>),
              push_event E 489 ''Added product to cart'',
              try_catch
                (extract_lower E 498 (\<lambda>cartExpStr.
                   block [push_findings (cart_findings cartExpStr),
                          push_event E 562 ''Analyzed cart experience'']))
                (\<lambda>cartAnalysisError. block [])])
      after_cart not_reached"
    unfolding prim_defs
    apply (rule hoare_block_cons[where R = carted])
    subgoal by (rule hoare_modify) (simp add: reach_defs)
    apply (rule hoare_block_cons_pres)
    subgoal by (intro pres_intros) (simp_all add: reach_defs)
    subgoal by (simp add: reach_defs)
    apply (rule hoare_block_cons_pres)
    subgoal by (intro pres_intros) (simp_all add: reach_defs)
    subgoal by (simp add: reach_defs)
    by (rule hoare_block_nil) (simp add: reach_defs)
  have failure: "hoare not_reached
      (extract_lower E 575 (\<lambda>finalErrorStr.
         block [push_findings [add_to_cart_failure_finding cartCheckStr finalErrorStr],
                set_dropOffStep ''add_to_cart'']))
      after_cart not_reached" for cartCheckStr
    unfolding prim_defs
    apply (rule hoare_extract_lower)
    subgoal
      apply (rule hoare_block_cons_pres)
      subgoal by (intro pres_intros) (simp_all add: reach_defs)
      subgoal by simp
      apply (rule hoare_block_cons[where R = after_cart])
      subgoal by (rule hoare_modify) (simp add: reach_defs)
      by (rule hoare_block_nil) simp
    by simp
  show ?thesis
    unfolding add_to_cart_body_def
    apply (rule hoare_block_cons_pres)
    subgoal unfolding prim_defs by (intro pres_intros)
    subgoal by simp
    apply (rule hoare_block_cons_pres)
    subgoal unfolding prim_defs by (intro pres_intros) (simp_all add: reach_defs)
    subgoal by simp
    apply (rule hoare_block_cons_pres)
    subgoal unfolding prim_defs by (intro pres_intros) (simp_all add: reach_defs)
    subgoal by simp
    apply (rule hoare_block_cons[where R = after_cart])
    subgoal
      apply (rule hoare_extract_lower)
      subgoal by (rule hoare_if) (rule success, rule failure)
      by simp
    by (rule hoare_block_nil) simp
qed

lemma add_to_cart_catch_hoare: "hoare not_reached (add_to_cart_catch e) after_cart after_cart"
  unfolding add_to_cart_catch_def prim_defs
  apply (rule hoare_block_cons[where R = not_reached])
  subgoal by (rule hoare_modify) (simp add: reach_defs)
  apply (rule hoare_block_cons[where R = after_cart])
  subgoal by (rule hoare_modify) (simp add: reach_defs)
  by (rule hoare_block_nil) simp

lemma add_to_cart_hoare: "hoare funnel_start (add_to_cart E) after_cart after_cart"
  unfolding add_to_cart_def
proof (rule hoare_when_v)
  have handled: "hoare not_reached (try_catch (add_to_cart_body E) add_to_cart_catch) after_cart after_cart"
    by (rule hoare_try_catch[OF add_to_cart_body_hoare add_to_cart_catch_hoare])
  have entered: "hoare not_reached
      (block [push_event E 375 ''Looking for Add to Cart button'',
              try_catch (add_to_cart_body E) add_to_cart_catch]) after_cart after_cart"
    unfolding prim_defs
    apply (rule hoare_block_cons[where R = not_reached])
    subgoal by (rule hoare_modify) (simp add: reach_defs)
    apply (rule hoare_block_cons[OF handled])
    by (rule hoare_block_nil) simp
  show "hoare (\<lambda>s. funnel_start s \<and> falsy (dropOffStep s))
      (block [push_event E 375 ''Looking for Add to Cart button'',
              try_catch (add_to_cart_body E) add_to_cart_catch]) after_cart after_cart"
    by (rule hoare_weaken[OF entered]) (simp_all add: reach_defs)
  show "\<And>s. funnel_start s \<Longrightarrow> \<not> falsy (dropOffStep s) \<Longrightarrow> after_cart s"
    by (auto simp: reach_defs)
qed

lemma in_checkout_form: "preserves in_checkout (checkout_form_body E)"
  unfolding checkout_form_body_def prim_defs
  by (intro pres_intros) (simp_all add: reach_defs)

lemma checkout_form_keeps_reached:
  "hoare in_checkout (try_catch (checkout_form_body E) checkout_form_catch) in_checkout (\<lambda>s. False)"
proof (rule hoare_try_catch[where Y = in_checkout])
  show "hoare in_checkout (checkout_form_body E) in_checkout in_checkout"
    using in_checkout_form by (simp add: preserves_def)
next
  fix e
  show "hoare in_checkout (checkout_form_catch e) in_checkout (\<lambda>s. False)"
    unfolding checkout_form_catch_def push_findings_def
    by (rule hoare_modify) (simp add: reach_defs)
qed

text \<open>
  The body of the checkout \<open>try\<close> completes with checkout reached and no drop-off step;
  when it throws, checkout is not reached.
\<close>

lemma checkout_body_reaches:
  "hoare at_checkout (checkout_body E) in_checkout (\<lambda>s. \<not> checkoutReached s)"
proof -
  have not_yet: "\<And>s. at_checkout s \<Longrightarrow> \<not> checkoutReached s"
    by (simp add: reach_defs)
  show ?thesis
    unfolding checkout_body_def prim_defs
    apply (rule hoare_block_cons_pres)
    subgoal by (intro pres_intros)
    subgoal by (rule not_yet)
    apply (rule hoare_block_cons_pres)
    subgoal by (intro pres_intros) (simp_all add: reach_defs)
    subgoal by (rule not_yet)
    apply (rule hoare_block_cons_pres)
    subgoal by (intro pres_intros) (simp_all add: reach_defs)
    subgoal by (rule not_yet)
    apply (rule hoare_block_cons_pres)
    subgoal by (intro pres_intros) (simp_all add: reach_defs)
    subgoal by (rule not_yet)
    apply (rule hoare_block_cons[where R = in_checkout])
    subgoal by (rule hoare_modify) (simp add: reach_defs)
    apply (rule hoare_block_cons[where R = in_checkout])
    subgoal by (rule hoare_modify) (simp add: reach_defs)
    apply (rule hoare_block_cons[where R = in_checkout])
    subgoal by (rule hoare_weaken[OF checkout_form_keeps_reached]) simp_all
    by (rule hoare_block_nil) simp
qed

lemma checkout_catch_drops:
  "hoare (\<lambda>s. \<not> checkoutReached s) (checkout_catch e) reached_post reached_post"
  unfolding checkout_catch_def prim_defs
  apply (rule hoare_block_cons[where R = dropped])
  subgoal by (rule hoare_modify) (simp add: reach_defs)
  apply (rule hoare_block_cons[where R = reached_post])
  subgoal by (rule hoare_modify) (simp add: reach_defs)
  by (rule hoare_block_nil) simp

lemma checkout_reaches: "hoare after_cart (checkout E) reached_post reached_post"
  unfolding checkout_def
proof (rule hoare_when_v)
  have handled: "hoare at_checkout (try_catch (checkout_body E) checkout_catch) reached_post reached_post"
  proof (rule hoare_try_catch[where Y = "\<lambda>s. \<not> checkoutReached s"])
    show "hoare at_checkout (checkout_body E) reached_post (\<lambda>s. \<not> checkoutReached s)"
      by (rule hoare_weaken[OF checkout_body_reaches]) (simp_all add: reach_defs)
    show "\<And>e. hoare (\<lambda>s. \<not> checkoutReached s) (checkout_catch e) reached_post reached_post"
      by (rule checkout_catch_drops)
  qed
  have entered: "hoare at_checkout
      (block [push_event E 641 ''Navigating to cart/checkout'', try_catch (checkout_body E) checkout_catch])
      reached_post reached_post"
    unfolding prim_defs
    apply (rule hoare_block_cons[where R = at_checkout])
    subgoal by (rule hoare_modify) (simp add: reach_defs)
    apply (rule hoare_block_cons[OF handled])
    by (rule hoare_block_nil) simp
  show "hoare (\<lambda>s. after_cart s \<and> addToCartSuccess s \<and> falsy (dropOffStep s))
      (block [push_event E 641 ''Navigating to cart/checkout'', try_catch (checkout_body E) checkout_catch])
      reached_post reached_post"
  proof (rule hoare_weaken[OF entered])
    fix s
    assume "after_cart s \<and> addToCartSuccess s \<and> falsy (dropOffStep s)"
    then show "at_checkout s"
      by (auto simp: reach_defs)
  qed simp_all
  show "\<And>s. after_cart s \<Longrightarrow> \<not> (addToCartSuccess s \<and> falsy (dropOffStep s)) \<Longrightarrow> reached_post s"
    by (auto simp: reach_defs)
qed

lemma stages_reached_post: "hoare funnel_start (stages E u) reached_post (\<lambda>s. True)"
  unfolding stages_def
  apply (rule hoare_block_cons_pres[OF funnel_start_navigate], simp)
  apply (rule hoare_block_cons_pres[OF funnel_start_homepage], simp)
  apply (rule hoare_block_cons_pres[OF funnel_start_product_discovery], simp)
  apply (rule hoare_block_cons[where R = after_cart])
   apply (rule hoare_weaken[OF add_to_cart_hoare], simp_all)
  apply (rule hoare_block_cons[where R = reached_post])
   apply (rule hoare_weaken[OF checkout_reaches], simp_all)
  by (rule hoare_block_nil)

lemma funnel_start_initial: "funnel_start initial_locals"
  by (simp add: funnel_start_def initial_locals_def)

section \<open>How \<open>runAnalysis\<close> ends\<close>

lemma close_quietly_result:
  "close_quietly E s = (None, s\<lparr>closeCalls := closeCalls s + 1\<rparr>)"
  by (cases "stagehand_close E 1085") (simp_all add: close_quietly_def try_catch_def modify_def await_def)

lemma failed_result_close_calls:
  "failed_result u i e (s\<lparr>closeCalls := n\<rparr>) = failed_result u i e s"
  by (simp add: failed_result_def)

lemma runAnalysis_rejects: "new_Stagehand E = Some e \<Longrightarrow> runAnalysis E u i = Inl e"
  by (simp add: runAnalysis_def runAnalysis_closes_def)

lemma runAnalysis_caught:
  "new_Stagehand E = None \<Longrightarrow> try_block E u i initial_locals = (Inl e, s)
   \<Longrightarrow> runAnalysis_closes E u i = (Inr (failed_result u i e s), closeCalls s + 1)"
  by (simp add: runAnalysis_closes_def close_quietly_result failed_result_close_calls)

lemma runAnalysis_returned:
  "new_Stagehand E = None \<Longrightarrow> try_block E u i initial_locals = (Inr r, s)
   \<Longrightarrow> runAnalysis_closes E u i = (Inr r, closeCalls s)"
  by (simp add: runAnalysis_closes_def)

lemma try_block_stage_throws:
  "stages E u s0 = (Some e, s1) \<Longrightarrow> try_block E u i s0 = (Inl e, s1)"
  by (simp add: try_block_def)

lemma try_block_close_throws:
  "stages E u s0 = (None, s1) \<Longrightarrow> stagehand_close E 1063 = Some e
   \<Longrightarrow> try_block E u i s0 = (Inl e, closing_locals E s1)"
  by (simp add: try_block_def closing_locals_def Let_def)

lemma try_block_returns:
  "stages E u s0 = (None, s1) \<Longrightarrow> stagehand_close E 1063 = None
   \<Longrightarrow> try_block E u i s0 =
       (Inr (completed_result u i
               (compute_score (addToCartSuccess s1) (checkoutReached s1)
                  (checkoutFormFilled (timeline_v s1)) (findings_v s1))
               (checkoutFormFilled (timeline_v s1)) (closing_locals E s1)),
        closing_locals E s1)"
  by (simp add: try_block_def closing_locals_def Let_def)

text \<open>A result is either the object of the outer handler or the object after the score.\<close>

lemma runAnalysis_result:
  assumes "runAnalysis E u i = Inr r"
  shows "(\<exists>e s. try_block E u i initial_locals = (Inl e, s) \<and> r = failed_result u i e s)
         \<or> (\<exists>s1. stages E u initial_locals = (None, s1) \<and> stagehand_close E 1063 = None
                \<and> r = completed_result u i
                        (compute_score (addToCartSuccess s1) (checkoutReached s1)
                           (checkoutFormFilled (timeline_v s1)) (findings_v s1))
                        (checkoutFormFilled (timeline_v s1)) (closing_locals E s1))"
proof (cases "new_Stagehand E")
  case (Some e)
  with assms show ?thesis by (simp add: runAnalysis_rejects)
next
  case None
  obtain x s1 where st: "stages E u initial_locals = (x, s1)"
    by (cases "stages E u initial_locals")
  show ?thesis
  proof (cases x)
    case (Some e)
    with st have "try_block E u i initial_locals = (Inl e, s1)"
      by (simp add: try_block_stage_throws)
    with None assms show ?thesis
      by (auto simp: runAnalysis_def runAnalysis_caught)
  next
    case stages_done: None
    show ?thesis
    proof (cases "stagehand_close E 1063")
      case (Some e)
      with st stages_done have "try_block E u i initial_locals = (Inl e, closing_locals E s1)"
        by (simp add: try_block_close_throws)
      with None assms show ?thesis
        by (auto simp: runAnalysis_def runAnalysis_caught)
    next
      case close_done: None
      from st stages_done close_done None assms show ?thesis
        by (auto simp: runAnalysis_def runAnalysis_returned try_block_returns)
    qed
  qed
qed

section \<open>The score\<close>

lemma clamp_range: "0 \<le> max 0 (min 100 (x::int)) \<and> max 0 (min 100 x) \<le> 100"
  by simp

lemma compute_score_range: "0 \<le> compute_score a b c fs \<and> compute_score a b c fs \<le> 100"
  unfolding compute_score_def Let_def by (rule clamp_range)

text \<open>The score, spelled out: the funnel component plus the floored UX component, clamped.\<close>

lemma compute_score_closed_form:
  "compute_score atc reached filled fs =
     max 0 (min 100
       ((if atc then 20 else 0) + (if reached then 20 else 0) + (if filled then 20 else 0)
        + max 0 (40 - 15 * count_category Critical fs - 8 * count_category Warning fs
                 - 5 * count_category Suggestion fs)))"
  by (cases atc; cases reached; cases filled) (simp_all add: compute_score_def Let_def mult.commute)

lemma positive_findings_category:
  "list_all (\<lambda>f. category f = Positive) (positive_findings E s filled)"
  by (simp add: positive_findings_def finding_def split: option.splits)

lemma count_category_append_positive:
  "c \<noteq> Positive \<Longrightarrow> list_all (\<lambda>f. category f = Positive) ps
   \<Longrightarrow> count_category c (fs @ ps) = count_category c fs"
  by (induction ps) (auto simp: count_category_def)

lemma compute_score_positive:
  assumes "list_all (\<lambda>f. category f = Positive) ps"
  shows "compute_score a b c (fs @ ps) = compute_score a b c fs"
proof -
  have "count_category Critical (fs @ ps) = count_category Critical fs"
    "count_category Warning (fs @ ps) = count_category Warning fs"
    "count_category Suggestion (fs @ ps) = count_category Suggestion fs"
    using assms by (simp_all add: count_category_append_positive)
  then show ?thesis
    unfolding compute_score_def by (simp only:)
qed

text \<open>The score when every stage is done and no finding counts, and two more.\<close>

lemma compute_score_values:
  "compute_score True True True [] = 100"
  "count_category Critical fs = 0 \<Longrightarrow> count_category Warning fs = 0
   \<Longrightarrow> count_category Suggestion fs = 0 \<Longrightarrow> compute_score True True True fs = 100"
  "compute_score True True False [checkout_form_issues_finding e] = 72"
  "compute_score False False False [no_products_finding e] = 25"
  by (simp_all add: compute_score_def count_category_def checkout_form_issues_finding_def
      no_products_finding_def finding_ev_def)

text \<open>
  The score of a completed result is the formula of lines 989-1016 on the metrics and
  findings of that same result: the positive findings pushed after the score do not count.
\<close>

lemma completed_score_formula:
  assumes "runAnalysis E u i = Inr r" and "status r = Completed"
  shows "score r = compute_score (add_to_cart_success (metrics r)) (checkout_reached (metrics r))
                     (checkout_form_filled (metrics r)) (findings r)"
  using runAnalysis_result[OF assms(1)] assms(2)
  by (auto simp: failed_result_def completed_result_def closing_locals_def
      compute_score_positive positive_findings_category)

lemma score_in_range:
  assumes "runAnalysis E u i = Inr r"
  shows "0 \<le> score r \<and> score r \<le> 100"
  using runAnalysis_result[OF assms] compute_score_range
  by (auto simp: failed_result_def completed_result_def)

lemma clean_completed_run_scores_100:
  assumes "runAnalysis E u i = Inr r" and "status r = Completed"
    and "add_to_cart_success (metrics r)" and "checkout_reached (metrics r)"
    and "checkout_form_filled (metrics r)"
    and "count_category Critical (findings r) = 0" and "count_category Warning (findings r) = 0"
    and "count_category Suggestion (findings r) = 0"
  shows "score r = 100"
  using completed_score_formula[OF assms(1,2)] assms(3-)
  by (simp add: compute_score_values)

lemma close_calls_initial: "close_calls_are 0 initial_locals"
  by (simp add: close_calls_are_def initial_locals_def)

text \<open>
  \<open>close\<close> is invoked once, except when the stages have completed and the \<open>close\<close> of
  line 1063 throws: then the outer handler invokes it a second time.
\<close>

lemma close_invocations:
  assumes "new_Stagehand E = None"
  shows "snd (runAnalysis_closes E u i) =
           (if fst (stages E u initial_locals) = None \<and> stagehand_close E 1063 \<noteq> None then 2 else 1)"
proof -
  obtain x s1 where st: "stages E u initial_locals = (x, s1)"
    by (cases "stages E u initial_locals")
  have calls: "closeCalls s1 = 0"
    using preserves_result[OF close_calls_stages close_calls_initial st]
    by (simp add: close_calls_are_def)
  show ?thesis
  proof (cases x)
    case (Some e)
    with st assms calls show ?thesis
      by (simp add: runAnalysis_caught try_block_stage_throws)
  next
    case None
    with st assms calls show ?thesis
      by (cases "stagehand_close E 1063")
         (simp_all add: runAnalysis_caught runAnalysis_returned try_block_close_throws
            try_block_returns closing_locals_def)
  qed
qed

section \<open>Substrings\<close>

lemma starts_with_iff: "starts_with s p \<longleftrightarrow> (\<exists>b. s = p @ b)"
  by (induction s p rule: starts_with.induct) auto

lemma str_includes_iff: "str_includes s p \<longleftrightarrow> (\<exists>a b. s = a @ p @ b)"
proof (induction s)
  case Nil
  then show ?case by auto
next
  case (Cons c cs)
  show ?case
  proof
    assume "str_includes (c # cs) p"
    then consider "starts_with (c # cs) p" | "str_includes cs p" by auto
    then show "\<exists>a b. c # cs = a @ p @ b"
    proof cases
      case 1
      then obtain b where "c # cs = p @ b" by (auto simp: starts_with_iff)
      then have "c # cs = [] @ p @ b" by simp
      then show ?thesis by blast
    next
      case 2
      with Cons obtain a b where "cs = a @ p @ b" by auto
      then have "c # cs = (c # a) @ p @ b" by simp
      then show ?thesis by blast
    qed
  next
    assume "\<exists>a b. c # cs = a @ p @ b"
    then obtain a b where eq: "c # cs = a @ p @ b" by auto
    show "str_includes (c # cs) p"
    proof (cases a)
      case Nil
      with eq have "starts_with (c # cs) p" by (auto simp: starts_with_iff)
      then show ?thesis by simp
    next
      case (Cons x xs)
      with eq have "cs = xs @ p @ b" by simp
      with Cons.IH have "str_includes cs p" by auto
      then show ?thesis by simp
    qed
  qed
qed

lemma str_includes_inner: "str_includes s (x @ p @ y) \<Longrightarrow> str_includes s p"
proof -
  assume "str_includes s (x @ p @ y)"
  then obtain a b where "s = a @ (x @ p @ y) @ b" by (auto simp: str_includes_iff)
  then have "s = (a @ x) @ p @ (y @ b)" by simp
  then show ?thesis unfolding str_includes_iff by blast
qed

lemma hasItems_as_specified_sufficient: "hasItems_as_specified s \<Longrightarrow> hasItems s"
  unfolding hasItems_as_specified_def hasItems_def inc_def
  using str_includes_inner[of s "[34]" "asc ''0''" "[34]"] by blast

section \<open>The runs on the concrete store\<close>

lemmas stmt_defs = modify_def throw_def await_def try_catch_def when_v_def when_c_def extract_lower_def
  extract_raw_def act_def read_url_def push_event_def push_event_url_def push_findings_def
  set_dropOffStep_def

lemmas shop_defs = shop_def shop_replies_def json_string_def ascii_lower_def shop_event_def
  shop_locals_def shop_cart_locals_def initial_locals_def shop_url_def labels_homepage_def
  labels_product_def labels_cart_def labels_checkout_def labels_form_def shop_done_def
  shop_form_failed_def shop_no_products_def

lemma shop_navigate:
  "navigate (shop l t f c) shop_url initial_locals = (None, shop_locals [''Navigate to store''])"
  by (simp add: navigate_def stmt_defs shop_defs asc_def)

lemma shop_homepage:
  "homepage (shop l t f c) (shop_locals [''Navigate to store'']) = (None, shop_locals labels_homepage)"
  by (simp add: homepage_def homepage_body_def homepage_findings_def inc_def stmt_defs shop_defs asc_def)

lemma shop_product_discovery:
  "product_discovery (shop None t f c) shop_url (shop_locals labels_homepage)
   = (None, shop_locals labels_product)"
  by (simp add: product_discovery_def product_discovery_body_def product_page_analysis_def
      product_findings_def inc_def stmt_defs shop_defs asc_def)

lemma shop_product_discovery_throws:
  "product_discovery (shop (Some e) t f c) shop_url (shop_locals labels_homepage)
   = (None, shop_no_products e)"
  by (simp add: product_discovery_def product_discovery_body_def product_discovery_catch_def
      stmt_defs shop_defs)

lemma shop_add_to_cart:
  "add_to_cart (shop l t f c) (shop_locals labels_product)
   = (None, shop_cart_locals t False [] labels_cart)"
  by (simp add: add_to_cart_def add_to_cart_body_def needsVariantSelection_def hasItems_def
      cart_findings_def inc_def stmt_defs shop_defs asc_def)

lemma shop_checkout:
  "checkout (shop l t None c) (shop_cart_locals t False [] labels_cart) = (None, shop_done t)"
  by (simp add: checkout_def checkout_body_def checkout_form_body_def checkout_form_catch_def
      checkout_catch_def checkout_findings_def match_here_def is_digit_def is_space_def
      inc_def stmt_defs shop_defs asc_def)

lemma shop_checkout_form_fails:
  "checkout (shop l t (Some e) c) (shop_cart_locals t False [] labels_cart)
   = (None, shop_form_failed t e)"
  by (simp add: checkout_def checkout_body_def checkout_form_body_def checkout_form_catch_def
      checkout_catch_def inc_def stmt_defs shop_defs asc_def)

lemma shop_no_products_skips:
  "add_to_cart E (shop_no_products e) = (None, shop_no_products e)"
  "checkout E (shop_no_products e) = (None, shop_no_products e)"
  by (simp_all add: add_to_cart_def checkout_def when_v_def shop_no_products_def shop_locals_def
      initial_locals_def asc_empty_iff)

lemma shop_stages:
  "stages (shop None t None c) shop_url initial_locals = (None, shop_done t)"
  by (simp add: stages_def shop_navigate shop_homepage shop_product_discovery shop_add_to_cart
      shop_checkout)

lemma shop_stages_form_fails:
  "stages (shop None t (Some e) c) shop_url initial_locals = (None, shop_form_failed t e)"
  by (simp add: stages_def shop_navigate shop_homepage shop_product_discovery shop_add_to_cart
      shop_checkout_form_fails)

lemma shop_stages_no_products:
  "stages (shop (Some e) t f c) shop_url initial_locals = (None, shop_no_products e)"
  by (simp add: stages_def shop_navigate shop_homepage shop_product_discovery_throws
      shop_no_products_skips)

lemma shop_fields:
  "new_Stagehand (shop l t f c) = None"
  "stagehand_close (shop l t f c) line = c"
  "Date_now (shop l t f c) 45 = 10000"
  "Date_now (shop l t f c) 484 = t"
  by (simp_all add: shop_def)

lemmas shop_locals_defs = shop_done_def shop_form_failed_def shop_no_products_def
  shop_cart_locals_def shop_locals_def initial_locals_def

lemma shop_event_not_filled:
  "inc (action (shop_event label)) ''Filled checkout form'' = str_includes label ''Filled checkout form''"
  by (simp add: shop_event_def inc_asc)

lemma shop_done_scoring:
  "addToCartSuccess (shop_done t)" "checkoutReached (shop_done t)"
  "findings_v (shop_done t) = []"
  "dropOffStep (shop_done t) = None"
  "timeToAddToCart (shop_done t) = Some (round_div_1000 (t - 10000))"
  "closeCalls (shop_done t) = 0"
  "length (timeline_v (shop_done t)) = 18"
  by (simp_all add: shop_locals_defs labels_form_def labels_checkout_def labels_cart_def
      labels_product_def labels_homepage_def)

lemma shop_done_filled: "checkoutFormFilled (timeline_v (shop_done t))"
  by (simp add: shop_locals_defs checkoutFormFilled_def shop_event_not_filled labels_form_def
      labels_checkout_def labels_cart_def labels_product_def labels_homepage_def)

lemma shop_form_failed_scoring:
  "addToCartSuccess (shop_form_failed t e)" "checkoutReached (shop_form_failed t e)"
  "findings_v (shop_form_failed t e) = [checkout_form_issues_finding e]"
  "dropOffStep (shop_form_failed t e) = None"
  "closeCalls (shop_form_failed t e) = 0"
  by (simp_all add: shop_locals_defs)

lemma shop_form_failed_not_filled: "\<not> checkoutFormFilled (timeline_v (shop_form_failed t e))"
  by (simp add: shop_locals_defs checkoutFormFilled_def shop_event_not_filled
      labels_checkout_def labels_cart_def labels_product_def labels_homepage_def)

lemma shop_no_products_scoring:
  "\<not> addToCartSuccess (shop_no_products e)" "\<not> checkoutReached (shop_no_products e)"
  "findings_v (shop_no_products e) = [no_products_finding e]"
  "dropOffStep (shop_no_products e) = Some (asc ''product_discovery'')"
  "closeCalls (shop_no_products e) = 0"
  by (simp_all add: shop_locals_defs)

lemma shop_no_products_not_filled: "\<not> checkoutFormFilled (timeline_v (shop_no_products e))"
  by (simp add: shop_locals_defs checkoutFormFilled_def shop_event_not_filled labels_homepage_def)

lemma shop_run:
  "runAnalysis_closes (shop None t None None) shop_url i
   = (Inr (completed_result shop_url i 100 True (closing_locals (shop None t None None) (shop_done t))), 1)"
  by (simp add: runAnalysis_returned try_block_returns shop_stages shop_fields shop_done_scoring
      shop_done_filled compute_score_values closing_locals_def)

lemma shop_run_form_fails:
  "runAnalysis_closes (shop None t (Some e) None) shop_url i
   = (Inr (completed_result shop_url i 72 False
             (closing_locals (shop None t (Some e) None) (shop_form_failed t e))), 1)"
  by (simp add: runAnalysis_returned try_block_returns shop_stages_form_fails shop_fields
      shop_form_failed_scoring shop_form_failed_not_filled compute_score_values closing_locals_def)

lemma shop_run_no_products:
  "runAnalysis_closes (shop (Some e) t f None) shop_url i
   = (Inr (completed_result shop_url i 25 False
             (closing_locals (shop (Some e) t f None) (shop_no_products e))), 1)"
  by (simp add: runAnalysis_returned try_block_returns shop_stages_no_products shop_fields
      shop_no_products_scoring shop_no_products_not_filled compute_score_values closing_locals_def)

lemma shop_run_close_throws:
  "runAnalysis_closes (shop None t None (Some e)) shop_url i
   = (Inr (failed_result shop_url i e (closing_locals (shop None t None (Some e)) (shop_done t))), 2)"
  by (simp add: runAnalysis_caught try_block_close_throws shop_stages shop_fields shop_done_scoring
      closing_locals_def)

lemma shop_run_no_products_close_throws:
  "runAnalysis_closes (shop (Some e) t f (Some e')) shop_url i
   = (Inr (failed_result shop_url i e'
             (closing_locals (shop (Some e) t f (Some e')) (shop_no_products e))), 2)"
  by (simp add: runAnalysis_caught try_block_close_throws shop_stages_no_products shop_fields
      shop_no_products_scoring closing_locals_def)

section \<open>Product discovery that throws\<close>

lemma hoare_trivial: "hoare P c (\<lambda>s. True) (\<lambda>s. True)"
  by (simp add: hoare_def split: prod.splits option.splits)

lemma homepage_never_throws: "hoare (\<lambda>s. True) (homepage E) (\<lambda>s. True) (\<lambda>s. False)"
  unfolding homepage_def
  by (rule hoare_try_catch[where Y = "\<lambda>s. True"]) (rule hoare_trivial, rule hoare_block_nil, simp)

lemma product_page_analysis_never_throws:
  "hoare (\<lambda>s. True) (product_page_analysis E) (\<lambda>s. True) (\<lambda>s. False)"
  unfolding product_page_analysis_def
  by (rule hoare_try_catch[where Y = "\<lambda>s. True"]) (rule hoare_trivial, rule hoare_block_nil, simp)

lemmas before_cart_defs = before_cart_def no_filled_def checkoutFormFilled_def inc_asc asc_empty_iff

lemma before_cart_initial: "before_cart initial_locals"
  by (simp add: before_cart_def no_filled_def checkoutFormFilled_def initial_locals_def)

lemma before_cart_navigate: "preserves before_cart (navigate E u)"
  unfolding navigate_def prim_defs
  by (intro pres_intros) (simp_all add: before_cart_defs split: option.splits)

lemma homepage_findings_mild:
  "list_all (\<lambda>f. category f \<noteq> Critical \<and> category f \<noteq> Positive
                  \<and> finding_id f \<noteq> asc ''no-products'') (homepage_findings h)"
  by (simp add: homepage_findings_def finding_def asc_eq_iff list_all_if cong: if_cong split del: if_split)

lemma before_cart_homepage: "preserves before_cart (homepage E)"
  unfolding homepage_def homepage_body_def prim_defs
  by (intro pres_intros) (simp_all add: before_cart_defs homepage_findings_mild)

lemma before_cart_looking: "preserves before_cart (push_event E 176 ''Looking for products'')"
  unfolding prim_defs
  by (intro pres_intros) (simp_all add: before_cart_defs)

lemma product_discovery_body_throwing:
  "hoare before_cart (product_discovery_body E u) (\<lambda>s. True) before_cart"
proof -
  have detail: "hoare before_cart
        (block [when_c (\<not> inc pageCheckStr ''yes'') (block [act E 237, read_url E 239]),
                push_event E 243 ''Navigated to product page'',
                product_page_analysis E]) (\<lambda>s. True) before_cart" for pageCheckStr
    unfolding prim_defs
    apply (rule hoare_block_cons_pres)
    subgoal by (intro pres_intros) (simp_all add: before_cart_defs)
    subgoal by simp
    apply (rule hoare_block_cons_pres)
    subgoal by (intro pres_intros) (simp_all add: before_cart_defs)
    subgoal by simp
    apply (rule hoare_block_cons[where R = "\<lambda>s. True"])
    subgoal by (rule hoare_weaken[OF product_page_analysis_never_throws]) simp_all
    by (rule hoare_block_nil) simp
  show ?thesis
    unfolding product_discovery_body_def
    apply (rule hoare_extract_lower)
    subgoal for initialCheckStr
      apply (rule hoare_block_cons_pres)
      subgoal unfolding prim_defs by (intro pres_intros) (simp_all add: before_cart_defs)
      subgoal by simp
      apply (rule hoare_block_cons_pres)
      subgoal unfolding prim_defs by (intro pres_intros)
      subgoal by simp
      apply (rule hoare_block_cons_pres)
      subgoal unfolding prim_defs by (intro pres_intros) (simp_all add: before_cart_defs)
      subgoal by simp
      apply (rule hoare_block_cons[where R = "\<lambda>s. True"])
      subgoal by (rule hoare_extract_lower) (rule detail, simp)
      by (rule hoare_block_nil) simp
    by simp
qed

text \<open>
  When the body of the product discovery \<open>try\<close> throws and the \<open>close\<close> of line 1063
  does not, the run is completed with the drop-off step \<open>product_discovery\<close>, no
  add-to-cart success, and \<open>no-products\<close> as its only critical finding.
\<close>

lemma product_discovery_throw_completed:
  assumes ctor: "new_Stagehand E = None"
    and nav: "navigate E u initial_locals = (None, s1)"
    and home: "homepage E s1 = (x, s2)"
    and body: "product_discovery_body E u (snd (push_event E 176 ''Looking for products'' s2)) = (Some e, s3)"
    and closed: "stagehand_close E 1063 = None"
  shows "\<exists>r. runAnalysis E u i = Inr r \<and> status r = Completed
            \<and> drop_off_step (metrics r) = Some (asc ''product_discovery'')
            \<and> \<not> add_to_cart_success (metrics r)
            \<and> filter (\<lambda>f. category f = Critical) (findings r) = [no_products_finding e]
            \<and> filter (\<lambda>f. finding_id f = asc ''no-products'') (findings r) = [no_products_finding e]"
proof -
  have x: "x = None"
  proof (cases x)
    case (Some e')
    with home have "homepage E s1 = (Some e', s2)" by simp
    from hoare_throws[OF homepage_never_throws _ this] show ?thesis by simp
  qed simp
  have b1: "before_cart s1"
    using preserves_result[OF before_cart_navigate before_cart_initial nav] .
  have b2: "before_cart s2"
    using preserves_result[OF before_cart_homepage b1 home] .
  obtain s2' where looking: "push_event E 176 ''Looking for products'' s2 = (None, s2')"
    by (simp add: push_event_def modify_def)
  have b2': "before_cart s2'"
    using preserves_result[OF before_cart_looking b2 looking] .
  from body looking have body': "product_discovery_body E u s2' = (Some e, s3)"
    by simp
  have b3: "before_cart s3"
    using hoare_throws[OF product_discovery_body_throwing b2' body'] .
  define s4 where "s4 = s3\<lparr>findings_v := findings_v s3 @ [no_products_finding e],
                            dropOffStep := Some (asc ''product_discovery'')\<rparr>"
  have caught: "product_discovery E u s2 = (None, s4)"
    using looking body'
    by (simp add: product_discovery_def try_catch_def product_discovery_catch_def push_findings_def
        set_dropOffStep_def modify_def s4_def)
  have skip: "add_to_cart E s4 = (None, s4)" "checkout E s4 = (None, s4)"
    using b3 by (simp_all add: add_to_cart_def checkout_def when_v_def s4_def asc_empty_iff before_cart_def)
  have st: "stages E u initial_locals = (None, s4)"
    using nav home x caught skip by (simp add: stages_def)
  have mild: "filter (\<lambda>f. category f = Critical) (findings_v s3) = []"
             "filter (\<lambda>f. finding_id f = asc ''no-products'') (findings_v s3) = []"
    using b3 by (auto simp: before_cart_def list_all_iff filter_empty_conv)
  have flags: "\<not> addToCartSuccess s3" "\<not> checkoutReached s3" "\<not> checkoutFormFilled (timeline_v s3)"
    using b3 by (simp_all add: before_cart_def no_filled_def)
  have run: "runAnalysis E u i = Inr (completed_result u i
               (compute_score (addToCartSuccess s4) (checkoutReached s4)
                  (checkoutFormFilled (timeline_v s4)) (findings_v s4))
               (checkoutFormFilled (timeline_v s4)) (closing_locals E s4))"
    using ctor st closed by (simp add: runAnalysis_def runAnalysis_returned try_block_returns)
  show ?thesis
    unfolding run
    using mild flags
    by (simp add: completed_result_def closing_locals_def positive_findings_def s4_def
        no_products_finding_def finding_ev_def asc_eq_iff)
qed

section \<open>The claims\<close>

text \<open>
  C1. For every run that reaches the score, the returned score is the funnel component
  (20 for add-to-cart, 20 for checkout reached, 20 for the form filled) plus the UX
  component (40 less 15 per critical, 8 per warning and 5 per suggestion finding, not
  below 0), clamped to 0..100; so every score is in 0..100 and a run that completes every
  stage without such findings scores at least 80.

  The formula is the one of the source (\<open>compute_score_closed_form\<close>), every completed
  result carries its value (\<open>completed_score_formula\<close>, \<open>clean_completed_run_scores_100\<close>)
  and every score is in range (\<open>score_in_range\<close>), but a run that has reached the score
  does not always return it: \<open>await stagehand.close()\<close> of line 1063
  is inside the outer \<open>try\<close>, after the score. On the store where every stage succeeds
  and no rule fires, the stages complete and the formula gives 100; when \<open>close\<close> throws,
  the outer handler returns the failed result, whose score is 0.
\<close>

theorem score_discarded_when_close_throws:
  "stages unclosable_shop shop_url initial_locals = (None, shop_done 22400)
   \<and> compute_score (addToCartSuccess (shop_done 22400)) (checkoutReached (shop_done 22400))
        (checkoutFormFilled (timeline_v (shop_done 22400))) (findings_v (shop_done 22400)) = 100
   \<and> runAnalysis unclosable_shop shop_url run1
       = Inr (failed_result shop_url run1 close_error (closing_locals unclosable_shop (shop_done 22400)))
   \<and> score (failed_result shop_url run1 close_error (closing_locals unclosable_shop (shop_done 22400))) = 0"
  by (simp add: unclosable_shop_def shop_stages shop_done_scoring shop_done_filled compute_score_values
      runAnalysis_def shop_run_close_throws failed_result_def)

text \<open>
  C2. In every result, \<open>drop_off_step\<close> is non-null if and only if
  \<open>checkout_form_filled\<close> is false; a run that succeeds through every stage has no
  drop-off step; \<open>checkout_form_filled\<close> is whether a timeline action contains
  \<open>Filled checkout form\<close>.

  The equivalence has one exception: the handler of the form-filling \<open>try\<close>
  (lines 963-973) pushes a warning and leaves \<open>dropOffStep\<close> alone. On the store where
  the first form-filling \<open>act\<close> throws, checkout is reached, the result has no drop-off
  step and the form is not filled.
\<close>

theorem form_not_filled_without_drop_off:
  "runAnalysis (shop None 22400 (Some fill_error) None) shop_url run1
     = Inr (completed_result shop_url run1 72 False
              (closing_locals (shop None 22400 (Some fill_error) None) (shop_form_failed 22400 fill_error)))
   \<and> drop_off_step (metrics (completed_result shop_url run1 72 False
        (closing_locals (shop None 22400 (Some fill_error) None) (shop_form_failed 22400 fill_error)))) = None
   \<and> \<not> checkout_form_filled (metrics (completed_result shop_url run1 72 False
        (closing_locals (shop None 22400 (Some fill_error) None) (shop_form_failed 22400 fill_error))))
   \<and> checkout_reached (metrics (completed_result shop_url run1 72 False
        (closing_locals (shop None 22400 (Some fill_error) None) (shop_form_failed 22400 fill_error))))"
  by (simp add: runAnalysis_def shop_run_form_fails completed_result_def closing_locals_def
      shop_form_failed_scoring)

text \<open>
  C2, as the code has it: in every result, \<open>drop_off_step\<close> is non-null if and only if
  \<open>checkout_form_filled\<close> is false and the result is not a completed one that reached
  checkout; that exception, a completed result with checkout reached and the form not
  filled, is the only one. In a completed result \<open>drop_off_step\<close> is null exactly when
  \<open>checkout_reached\<close> is true, so a result with the form filled has no drop-off step;
  and in a completed result \<open>checkout_form_filled\<close> is whether an action of the
  returned timeline contains \<open>Filled checkout form\<close>.
\<close>

theorem drop_off_iff_form_not_filled_unless_checkout_reached:
  assumes "runAnalysis E storeUrl runId = Inr r"
  shows "(drop_off_step (metrics r) \<noteq> None \<longleftrightarrow>
            \<not> checkout_form_filled (metrics r)
            \<and> \<not> (status r = Completed \<and> checkout_reached (metrics r)))
         \<and> (status r = Completed \<longrightarrow>
              (drop_off_step (metrics r) = None \<longleftrightarrow> checkout_reached (metrics r)))
         \<and> (checkout_form_filled (metrics r) \<longrightarrow> drop_off_step (metrics r) = None)
         \<and> (status r = Completed \<longrightarrow>
              checkout_form_filled (metrics r)
                = list_ex (\<lambda>t. inc (action t) ''Filled checkout form'') (timeline r))"
  using runAnalysis_result[OF assms]
proof (elim disjE exE conjE)
  fix e s
  assume "r = failed_result storeUrl runId e s"
  then show ?thesis by (simp add: failed_result_def)
next
  fix s1
  assume st: "stages E storeUrl initial_locals = (None, s1)"
    and r: "r = completed_result storeUrl runId
                  (compute_score (addToCartSuccess s1) (checkoutReached s1)
                     (checkoutFormFilled (timeline_v s1)) (findings_v s1))
                  (checkoutFormFilled (timeline_v s1)) (closing_locals E s1)"
  have filled: "filled_post s1"
    using hoare_completes[OF stages_filled_post before_checkout_initial st] .
  have reached: "reached_post s1"
    using hoare_completes[OF stages_reached_post funnel_start_initial st] .
  from filled reached r show ?thesis
    by (auto simp: completed_result_def closing_locals_def filled_post_def reached_post_def
        no_filled_def checkoutFormFilled_def)
qed

theorem drop_off_iff_form_not_filled_unless_checkout_reached_witness:
  "runAnalysis (shop (Some lookup_error) 22400 None None) shop_url run1
     = Inr (completed_result shop_url run1 25 False
              (closing_locals (shop (Some lookup_error) 22400 None None) (shop_no_products lookup_error)))
   \<and> status (completed_result shop_url run1 25 False
        (closing_locals (shop (Some lookup_error) 22400 None None) (shop_no_products lookup_error)))
       = Completed
   \<and> drop_off_step (metrics (completed_result shop_url run1 25 False
        (closing_locals (shop (Some lookup_error) 22400 None None) (shop_no_products lookup_error))))
       = Some (asc ''product_discovery'')
   \<and> \<not> checkout_reached (metrics (completed_result shop_url run1 25 False
        (closing_locals (shop (Some lookup_error) 22400 None None) (shop_no_products lookup_error))))
   \<and> \<not> checkout_form_filled (metrics (completed_result shop_url run1 25 False
        (closing_locals (shop (Some lookup_error) 22400 None None) (shop_no_products lookup_error))))
   \<and> \<not> list_ex (\<lambda>t. inc (action t) ''Filled checkout form'') (timeline (completed_result shop_url run1 25 False
        (closing_locals (shop (Some lookup_error) 22400 None None) (shop_no_products lookup_error))))
   \<and> runAnalysis (shop None 22400 None None) shop_url run1
     = Inr (completed_result shop_url run1 100 True
              (closing_locals (shop None 22400 None None) (shop_done 22400)))
   \<and> checkout_form_filled (metrics (completed_result shop_url run1 100 True
        (closing_locals (shop None 22400 None None) (shop_done 22400))))
   \<and> checkout_reached (metrics (completed_result shop_url run1 100 True
        (closing_locals (shop None 22400 None None) (shop_done 22400))))
   \<and> drop_off_step (metrics (completed_result shop_url run1 100 True
        (closing_locals (shop None 22400 None None) (shop_done 22400)))) = None
   \<and> list_ex (\<lambda>t. inc (action t) ''Filled checkout form'') (timeline (completed_result shop_url run1 100 True
        (closing_locals (shop None 22400 None None) (shop_done 22400))))"
proof -
  have dropped_run: "runAnalysis (shop (Some lookup_error) 22400 None None) shop_url run1
     = Inr (completed_result shop_url run1 25 False
              (closing_locals (shop (Some lookup_error) 22400 None None) (shop_no_products lookup_error)))"
    by (simp add: runAnalysis_def shop_run_no_products)
  have done_run: "runAnalysis (shop None 22400 None None) shop_url run1
     = Inr (completed_result shop_url run1 100 True
              (closing_locals (shop None 22400 None None) (shop_done 22400)))"
    by (simp add: runAnalysis_def shop_run)
  have fields: "drop_off_step (metrics (completed_result shop_url run1 25 False
        (closing_locals (shop (Some lookup_error) 22400 None None) (shop_no_products lookup_error))))
       = Some (asc ''product_discovery'')"
    "checkout_form_filled (metrics (completed_result shop_url run1 100 True
        (closing_locals (shop None 22400 None None) (shop_done 22400))))"
    "status (completed_result shop_url run1 25 False
        (closing_locals (shop (Some lookup_error) 22400 None None) (shop_no_products lookup_error)))
       = Completed"
    "status (completed_result shop_url run1 100 True
        (closing_locals (shop None 22400 None None) (shop_done 22400))) = Completed"
    by (simp_all add: completed_result_def closing_locals_def shop_no_products_scoring)
  note dropped_facts = drop_off_iff_form_not_filled_unless_checkout_reached[OF dropped_run]
  note done_facts = drop_off_iff_form_not_filled_unless_checkout_reached[OF done_run]
  from dropped_facts fields(1,3)
  have dropped_side: "\<not> checkout_reached (metrics (completed_result shop_url run1 25 False
        (closing_locals (shop (Some lookup_error) 22400 None None) (shop_no_products lookup_error))))"
    "\<not> checkout_form_filled (metrics (completed_result shop_url run1 25 False
        (closing_locals (shop (Some lookup_error) 22400 None None) (shop_no_products lookup_error))))"
    by auto
  with dropped_facts fields(3)
  have dropped_timeline: "\<not> list_ex (\<lambda>t. inc (action t) ''Filled checkout form'')
      (timeline (completed_result shop_url run1 25 False
        (closing_locals (shop (Some lookup_error) 22400 None None) (shop_no_products lookup_error))))"
    by blast
  from done_facts fields(2,4)
  have done_side: "checkout_reached (metrics (completed_result shop_url run1 100 True
        (closing_locals (shop None 22400 None None) (shop_done 22400))))"
    "drop_off_step (metrics (completed_result shop_url run1 100 True
        (closing_locals (shop None 22400 None None) (shop_done 22400)))) = None"
    "list_ex (\<lambda>t. inc (action t) ''Filled checkout form'') (timeline (completed_result shop_url run1 100 True
        (closing_locals (shop None 22400 None None) (shop_done 22400))))"
    by blast+
  from dropped_run done_run fields dropped_side dropped_timeline done_side
  show ?thesis by (intro conjI)
qed

text \<open>
  C3. \<open>runAnalysis\<close> never throws or rejects, whatever the page agent does, its
  construction included.

  The dynamic import and \<open>new Stagehand\<close> (lines 49-56) are before the outer \<open>try\<close>: when
  they throw, the promise rejects.
\<close>

theorem runAnalysis_rejects_when_construction_throws:
  "runAnalysis unimportable_shop shop_url run1 = Inl import_error"
  by (simp add: unimportable_shop_def runAnalysis_rejects)

text \<open>
  C3, as the code has it: once the import and the constructor have succeeded,
  \<open>runAnalysis\<close> returns a result whatever \<open>init\<close>, \<open>act\<close>, \<open>extract\<close> and \<open>close\<close> do;
  a failed result carries an error message and a finding, a completed one no error.
\<close>

theorem runAnalysis_returns_after_construction:
  assumes "new_Stagehand E = None"
  shows "\<exists>r. runAnalysis E storeUrl runId = Inr r
            \<and> (status r = Failed \<longrightarrow> error r \<noteq> None \<and> findings r \<noteq> [])
            \<and> (status r = Completed \<longrightarrow> error r = None)"
proof (cases "try_block E storeUrl runId initial_locals")
  case (Pair out s)
  show ?thesis
  proof (cases out)
    case (Inl e)
    with Pair assms have "runAnalysis E storeUrl runId = Inr (failed_result storeUrl runId e s)"
      by (simp add: runAnalysis_def runAnalysis_caught)
    then show ?thesis by (simp add: failed_result_def)
  next
    case (Inr r)
    with Pair assms have run: "runAnalysis E storeUrl runId = Inr r"
      by (simp add: runAnalysis_def runAnalysis_returned)
    from runAnalysis_result[OF run] have "status r = Completed \<longrightarrow> error r = None"
      by (auto simp: failed_result_def completed_result_def)
    moreover from runAnalysis_result[OF run]
    have "status r = Failed \<longrightarrow> error r \<noteq> None \<and> findings r \<noteq> []"
      by (auto simp: failed_result_def completed_result_def)
    ultimately show ?thesis using run by simp
  qed
qed

theorem runAnalysis_returns_after_construction_witness:
  "new_Stagehand refusing_shop = None
   \<and> (\<exists>r. runAnalysis refusing_shop shop_url run1 = Inr r
          \<and> (status r = Failed \<longrightarrow> error r \<noteq> None \<and> findings r \<noteq> [])
          \<and> (status r = Completed \<longrightarrow> error r = None))"
proof -
  have ctor: "new_Stagehand refusing_shop = None"
    by (simp add: refusing_shop_def shop_def)
  show ?thesis
    using ctor runAnalysis_returns_after_construction[OF ctor, of shop_url run1] by simp
qed

text \<open>
  C4. \<open>hasItems\<close> is true if and only if none of \<open>0\<close>, \<open>0 item\<close>, \<open>empty\<close>, \<open>no item\<close>
  occurs in the lower-cased serialised cart observation and one of \<open>1\<close>, \<open>item\<close>,
  \<open>added\<close>, \<open>eklendi\<close>, \<open>success\<close> does; the observation of an empty cart of scenario B
  gives false, the one of a cart with one item gives true.

  The first pattern of the source is not the digit but the digit between double quotes
  (line 477). A cart observation that mentions a total of 100 TL holds a zero and no
  quoted zero: \<open>hasItems\<close> is true on it, the condition as specified is false.
\<close>

theorem hasItems_true_with_a_zero:
  "hasItems (json_string cart_of_100_tl) \<and> \<not> hasItems_as_specified (json_string cart_of_100_tl)"
  by (simp add: hasItems_def hasItems_as_specified_def json_string_def cart_of_100_tl_def inc_def asc_def)

text \<open>
  C4, as the code has it: \<open>hasItems\<close> is true if and only if none of the quoted zero,
  \<open>0 item\<close>, \<open>empty\<close>, \<open>no item\<close> occurs and one of \<open>1\<close>, \<open>item\<close>, \<open>added\<close>,
  \<open>eklendi\<close>, \<open>success\<close> does; the condition as specified implies it; and the two
  observations of scenario B, serialised, give false and true.
\<close>

theorem hasItems_decision:
  "(hasItems s \<longleftrightarrow>
      \<not> str_includes s ([34] @ asc ''0'' @ [34]) \<and> \<not> inc s ''0 item'' \<and> \<not> inc s ''empty''
      \<and> \<not> inc s ''no item''
      \<and> (inc s ''1'' \<or> inc s ''item'' \<or> inc s ''added'' \<or> inc s ''eklendi'' \<or> inc s ''success''))
   \<and> (hasItems_as_specified s \<longrightarrow> hasItems s)
   \<and> \<not> hasItems (json_string scenario_B_empty)
   \<and> hasItems (json_string scenario_B_added)"
proof -
  have "\<not> hasItems (json_string scenario_B_empty)"
    by (simp add: hasItems_def json_string_def scenario_B_empty_def inc_def asc_def)
  moreover have "hasItems (json_string scenario_B_added)"
    by (simp add: hasItems_def json_string_def scenario_B_added_def inc_def asc_def)
  ultimately show ?thesis
    using hasItems_as_specified_sufficient[of s] by (auto simp: hasItems_def)
qed

theorem hasItems_decision_witness:
  "hasItems_as_specified (json_string scenario_B_added)
   \<and> hasItems (json_string scenario_B_added)
   \<and> \<not> str_includes (json_string scenario_B_added) ([34] @ asc ''0'' @ [34])
   \<and> inc (json_string scenario_B_added) ''eklendi''"
proof -
  have spec: "hasItems_as_specified (json_string scenario_B_added)"
    by (simp add: hasItems_as_specified_def json_string_def scenario_B_added_def inc_def asc_def)
  have "inc (json_string scenario_B_added) ''eklendi''"
    by (simp add: json_string_def scenario_B_added_def inc_def asc_def)
  with spec show ?thesis
    using hasItems_decision[of "json_string scenario_B_added"] by blast
qed

text \<open>
  C5. The homepage rules, on the observation text of scenario A
  (\<open>no search bar visible, navigation is clear\<close>), give a \<open>homepage-no-search\<close> warning
  and no \<open>homepage-navigation-unclear\<close> finding.

  They give no finding at all, on the text as it is and on its serialisation: the text
  holds \<open>no search\<close>, which opens the search rule, and \<open>search bar\<close>, which the inner
  condition of line 114 excludes.
\<close>

theorem scenario_A_gives_no_finding:
  "homepage_findings (asc scenario_A) = [] \<and> homepage_findings (json_string scenario_A) = []"
  by (simp add: homepage_findings_def scenario_A_def json_string_def inc_def asc_def)

text \<open>
  C5, as the code has it: on a text that holds \<open>search bar\<close> or \<open>search icon\<close> the
  homepage rules give no \<open>homepage-no-search\<close> finding, and on a text that holds none of
  \<open>confusing\<close>, \<open>cluttered\<close>, \<open>unclear\<close>, \<open>difficult\<close> they give no
  \<open>homepage-navigation-unclear\<close> finding; the text of scenario A is of both kinds.
\<close>

theorem search_bar_mention_suppresses_no_search:
  "(inc s ''search bar'' \<or> inc s ''search icon''
      \<longrightarrow> \<not> list_ex (\<lambda>f. finding_id f = asc ''homepage-no-search'') (homepage_findings s))
   \<and> (\<not> inc s ''confusing'' \<and> \<not> inc s ''cluttered'' \<and> \<not> inc s ''unclear'' \<and> \<not> inc s ''difficult''
      \<longrightarrow> \<not> list_ex (\<lambda>f. finding_id f = asc ''homepage-navigation-unclear'') (homepage_findings s))"
  by (simp add: homepage_findings_def finding_def asc_eq_iff list_ex_if cong: if_cong split del: if_split)

theorem search_bar_mention_suppresses_no_search_witness:
  "inc (asc scenario_A) ''search bar''
   \<and> \<not> inc (asc scenario_A) ''confusing'' \<and> \<not> inc (asc scenario_A) ''cluttered''
   \<and> \<not> inc (asc scenario_A) ''unclear'' \<and> \<not> inc (asc scenario_A) ''difficult''
   \<and> \<not> list_ex (\<lambda>f. finding_id f = asc ''homepage-no-search'') (homepage_findings (asc scenario_A))
   \<and> \<not> list_ex (\<lambda>f. finding_id f = asc ''homepage-navigation-unclear'') (homepage_findings (asc scenario_A))"
proof -
  have words: "inc (asc scenario_A) ''search bar''"
    "\<not> inc (asc scenario_A) ''confusing''" "\<not> inc (asc scenario_A) ''cluttered''"
    "\<not> inc (asc scenario_A) ''unclear''" "\<not> inc (asc scenario_A) ''difficult''"
    by (simp_all add: scenario_A_def inc_asc)
  then show ?thesis
    using search_bar_mention_suppresses_no_search[of "asc scenario_A"] by blast
qed



text \<open>
  C7. When product discovery throws, the run still returns status completed, with the
  drop-off step \<open>product_discovery\<close>, no add-to-cart success and one critical finding,
  \<open>no-products\<close>; a stage-level drop-off never gives status failed.

  It does so when \<open>close\<close> succeeds (\<open>product_discovery_throw_completed\<close> above). On the
  store where the first \<open>extract\<close> of product discovery throws and \<open>close\<close> throws too,
  the stages end with the drop-off step \<open>product_discovery\<close>, and the run returns the
  failed result of the outer handler.
\<close>

theorem drop_off_reported_as_failed_when_close_throws:
  "stages unclosable_shop_without_products shop_url initial_locals
     = (None, shop_no_products lookup_error)
   \<and> dropOffStep (shop_no_products lookup_error) = Some (asc ''product_discovery'')
   \<and> runAnalysis unclosable_shop_without_products shop_url run1
       = Inr (failed_result shop_url run1 close_error
                (closing_locals unclosable_shop_without_products (shop_no_products lookup_error)))
   \<and> status (failed_result shop_url run1 close_error
                (closing_locals unclosable_shop_without_products (shop_no_products lookup_error))) = Failed
   \<and> drop_off_step (metrics (failed_result shop_url run1 close_error
                (closing_locals unclosable_shop_without_products (shop_no_products lookup_error))))
       = Some (asc ''initialization'')
   \<and> findings (failed_result shop_url run1 close_error
                (closing_locals unclosable_shop_without_products (shop_no_products lookup_error)))
       = [analysis_failed_finding close_error]"
  by (simp add: unclosable_shop_without_products_def shop_stages_no_products shop_no_products_scoring
      runAnalysis_def shop_run_no_products_close_throws failed_result_def)

text \<open>
  C8. In every result, \<open>time_to_add_to_cart_seconds\<close> is non-null if and only if
  \<open>add_to_cart_success\<close> is true, and when non-null it is not negative.

  The time is \<open>Math.round\<close> of the difference of two \<open>Date.now()\<close> readings (lines 45,
  484, 485), and nothing keeps the second reading above the first. On the store where
  every stage succeeds, with readings 10000 and 4000, the result holds -6.
\<close>

theorem negative_time_when_clock_steps_back:
  "runAnalysis (shop None 4000 None None) shop_url run1
     = Inr (completed_result shop_url run1 100 True
              (closing_locals (shop None 4000 None None) (shop_done 4000)))
   \<and> add_to_cart_success (metrics (completed_result shop_url run1 100 True
        (closing_locals (shop None 4000 None None) (shop_done 4000))))
   \<and> time_to_add_to_cart_seconds (metrics (completed_result shop_url run1 100 True
        (closing_locals (shop None 4000 None None) (shop_done 4000)))) = Some (- 6)"
  by (simp add: runAnalysis_def shop_run completed_result_def closing_locals_def shop_done_scoring
      round_div_1000_def)

text \<open>
  C8, as the code has it: in every result, \<open>time_to_add_to_cart_seconds\<close> is non-null if
  and only if \<open>add_to_cart_success\<close> is true; and it is not negative when the clock
  reading of line 484 is not below the one of line 45.
\<close>

theorem time_to_add_to_cart_iff_success:
  assumes "runAnalysis E storeUrl runId = Inr r"
  shows "(time_to_add_to_cart_seconds (metrics r) \<noteq> None \<longleftrightarrow> add_to_cart_success (metrics r))
         \<and> (Date_now E 45 \<le> Date_now E 484
              \<longrightarrow> (\<forall>t. time_to_add_to_cart_seconds (metrics r) = Some t \<longrightarrow> 0 \<le> t))"
  using runAnalysis_result[OF assms]
proof (elim disjE exE conjE)
  fix e s
  assume "r = failed_result storeUrl runId e s"
  then show ?thesis by (simp add: failed_result_def)
next
  fix s1
  assume st: "stages E storeUrl initial_locals = (None, s1)"
    and r: "r = completed_result storeUrl runId
                  (compute_score (addToCartSuccess s1) (checkoutReached s1)
                     (checkoutFormFilled (timeline_v s1)) (findings_v s1))
                  (checkoutFormFilled (timeline_v s1)) (closing_locals E s1)"
  have "cart_time_inv (Date_now E 45 \<le> Date_now E 484) s1"
    using preserves_result[OF cart_time_stages cart_time_initial st] by simp
  with r show ?thesis
    by (simp add: completed_result_def closing_locals_def cart_time_inv_def)
qed

theorem time_to_add_to_cart_iff_success_witness:
  "runAnalysis (shop None 22400 None None) shop_url run1
     = Inr (completed_result shop_url run1 100 True
              (closing_locals (shop None 22400 None None) (shop_done 22400)))
   \<and> Date_now (shop None 22400 None None) 45 \<le> Date_now (shop None 22400 None None) 484
   \<and> add_to_cart_success (metrics (completed_result shop_url run1 100 True
        (closing_locals (shop None 22400 None None) (shop_done 22400))))
   \<and> time_to_add_to_cart_seconds (metrics (completed_result shop_url run1 100 True
        (closing_locals (shop None 22400 None None) (shop_done 22400)))) = Some 12"
proof -
  have run: "runAnalysis (shop None 22400 None None) shop_url run1
     = Inr (completed_result shop_url run1 100 True
              (closing_locals (shop None 22400 None None) (shop_done 22400)))"
    by (simp add: runAnalysis_def shop_run)
  have clock: "Date_now (shop None 22400 None None) 45 \<le> Date_now (shop None 22400 None None) 484"
    by (simp add: shop_fields)
  have "time_to_add_to_cart_seconds (metrics (completed_result shop_url run1 100 True
        (closing_locals (shop None 22400 None None) (shop_done 22400)))) = Some 12"
    by (simp add: completed_result_def closing_locals_def shop_done_scoring round_div_1000_def)
  with run clock show ?thesis
    using time_to_add_to_cart_iff_success[OF run] by simp
qed

text \<open>
  C9. On every exit path \<open>close\<close> is invoked exactly once, and a failure of \<open>close\<close> is
  swallowed and never changes the outcome: a run that completed all stages still returns
  status completed when \<open>close\<close> throws.

  Only the \<open>close\<close> of the outer handler (lines 1084-1088) is guarded. The one of line
  1063 is inside the outer \<open>try\<close>: on the store where every stage succeeds, a \<open>close\<close>
  that throws turns the completed result (score 100, one invocation) into the failed
  result of the handler, and \<open>close\<close> is invoked twice (\<open>close_invocations\<close> above counts
  the invocations of every run).
\<close>

theorem close_failure_changes_outcome:
  "runAnalysis_closes (shop None 22400 None None) shop_url run1
     = (Inr (completed_result shop_url run1 100 True
               (closing_locals (shop None 22400 None None) (shop_done 22400))), 1)
   \<and> runAnalysis_closes unclosable_shop shop_url run1
       = (Inr (failed_result shop_url run1 close_error
                 (closing_locals unclosable_shop (shop_done 22400))), 2)
   \<and> status (failed_result shop_url run1 close_error
                 (closing_locals unclosable_shop (shop_done 22400))) = Failed"
  by (simp add: unclosable_shop_def shop_run shop_run_close_throws failed_result_def)

text \<open>
  C10. Whenever an exception leaves the outer \<open>try\<close> block, also after add-to-cart and
  checkout have succeeded, the failed result has the drop-off step \<open>initialization\<close> and
  every funnel metric false or null, and its timeline is the one recorded up to the
  exception.
\<close>

theorem escaped_exception_discards_progress:
  assumes "new_Stagehand E = None"
    and "try_block E storeUrl runId initial_locals = (Inl e, s)"
  shows "\<exists>r. runAnalysis E storeUrl runId = Inr r
            \<and> status r = Failed
            \<and> drop_off_step (metrics r) = Some (asc ''initialization'')
            \<and> \<not> add_to_cart_success (metrics r) \<and> time_to_add_to_cart_seconds (metrics r) = None
            \<and> \<not> checkout_reached (metrics r) \<and> \<not> checkout_form_filled (metrics r)
            \<and> timeline r = timeline_v s"
proof -
  from assms have "runAnalysis E storeUrl runId = Inr (failed_result storeUrl runId e s)"
    by (simp add: runAnalysis_def runAnalysis_caught)
  then show ?thesis by (simp add: failed_result_def)
qed

theorem escaped_exception_discards_progress_witness:
  "new_Stagehand unclosable_shop = None
   \<and> try_block unclosable_shop shop_url run1 initial_locals
       = (Inl close_error, closing_locals unclosable_shop (shop_done 22400))
   \<and> addToCartSuccess (closing_locals unclosable_shop (shop_done 22400))
   \<and> checkoutReached (closing_locals unclosable_shop (shop_done 22400))
   \<and> length (timeline_v (closing_locals unclosable_shop (shop_done 22400))) = 18
   \<and> (\<exists>r. runAnalysis unclosable_shop shop_url run1 = Inr r
          \<and> drop_off_step (metrics r) = Some (asc ''initialization'')
          \<and> \<not> add_to_cart_success (metrics r) \<and> \<not> checkout_reached (metrics r)
          \<and> timeline r = timeline_v (closing_locals unclosable_shop (shop_done 22400)))"
proof -
  have ctor: "new_Stagehand unclosable_shop = None"
    by (simp add: unclosable_shop_def shop_fields)
  have thrown: "try_block unclosable_shop shop_url run1 initial_locals
       = (Inl close_error, closing_locals unclosable_shop (shop_done 22400))"
    by (simp add: unclosable_shop_def try_block_close_throws shop_stages shop_fields)
  have progress: "addToCartSuccess (closing_locals unclosable_shop (shop_done 22400))"
    "checkoutReached (closing_locals unclosable_shop (shop_done 22400))"
    "length (timeline_v (closing_locals unclosable_shop (shop_done 22400))) = 18"
    by (simp_all add: closing_locals_def shop_done_scoring)
  from escaped_exception_discards_progress[OF ctor thrown] ctor thrown progress
  show ?thesis by auto
qed

end
